theory Spec2Isabelle
  imports Main "HOL-Library.Sublist"
begin

section \<open>Strings\<close>

text \<open>
  A Python \<open>str\<close> is modelled as a \<open>string\<close>; one \<open>char\<close> stands for one character of
  the \<open>str\<close> (so \<open>length\<close> is Python's \<open>len\<close>), which restricts the model to the
  characters with code points below 256.
\<close>

section \<open>Regular expressions as used by \<open>auth.py\<close>\<close>

text \<open>
  \<open>auth.py\<close> validates with \<open>re.match\<close> on two patterns built from character classes,
  literals, \<open>+\<close> and \<open>{2,}\<close>, anchored by \<open>^\<close> and \<open>$\<close>. A pattern is a value of
  \<open>regex\<close>; matching is by derivatives.
\<close>

datatype item = Ch char | Range char char

fun in_item :: "char \<Rightarrow> item \<Rightarrow> bool" where
  "in_item c (Ch d) = (c = d)"
| "in_item c (Range lo hi) = ((of_char lo :: nat) \<le> of_char c \<and> (of_char c :: nat) \<le> of_char hi)"

datatype regex =
    Nothing
  | Eps
  | Class "item list"
  | Seq regex regex
  | Alt regex regex
  | Star regex

fun nullable :: "regex \<Rightarrow> bool" where
  "nullable Nothing = False"
| "nullable Eps = True"
| "nullable (Class its) = False"
| "nullable (Seq r s) = (nullable r \<and> nullable s)"
| "nullable (Alt r s) = (nullable r \<or> nullable s)"
| "nullable (Star r) = True"

fun deriv :: "char \<Rightarrow> regex \<Rightarrow> regex" where
  "deriv c Nothing = Nothing"
| "deriv c Eps = Nothing"
| "deriv c (Class its) = (if list_ex (in_item c) its then Eps else Nothing)"
| "deriv c (Seq r s) =
     (if nullable r then Alt (Seq (deriv c r) s) (deriv c s) else Seq (deriv c r) s)"
| "deriv c (Alt r s) = Alt (deriv c r) (deriv c s)"
| "deriv c (Star r) = Seq (deriv c r) (Star r)"

fun fullmatch :: "regex \<Rightarrow> string \<Rightarrow> bool" where
  "fullmatch r [] = nullable r"
| "fullmatch r (c # cs) = fullmatch (deriv c r) cs"

text \<open>\<open>r+\<close> and \<open>r{2,}\<close>.\<close>

definition plus_re :: "regex \<Rightarrow> regex" where
  "plus_re r = Seq r (Star r)"

definition at_least_two :: "regex \<Rightarrow> regex" where
  "at_least_two r = Seq r (Seq r (Star r))"

text \<open>
  \<open>re.match('^' + r + '$', s) is not None\<close>. Python's \<open>$\<close> matches at the end of the
  string and also just before a newline that ends the string.
\<close>

definition re_match :: "regex \<Rightarrow> string \<Rightarrow> bool" where
  "re_match r s =
     (fullmatch r s \<or> (s \<noteq> [] \<and> last s = CHR 0x0A \<and> fullmatch r (butlast s)))"

text \<open>\<open>^[a-zA-Z0-9_]+$\<close>\<close>

definition username_pattern :: regex where
  "username_pattern =
     plus_re (Class [Range CHR ''a'' CHR ''z'', Range CHR ''A'' CHR ''Z'',
                     Range CHR ''0'' CHR ''9'', Ch CHR ''_''])"

text \<open>\<open>^[a-zA-Z0-9._%+-]+@[a-zA-Z0-9.-]+\.[a-zA-Z]{2,}$\<close>\<close>

definition email_pattern :: regex where
  "email_pattern =
     Seq (plus_re (Class [Range CHR ''a'' CHR ''z'', Range CHR ''A'' CHR ''Z'',
                          Range CHR ''0'' CHR ''9'', Ch CHR ''.'', Ch CHR ''_'',
                          Ch CHR ''%'', Ch CHR ''+'', Ch CHR ''-'']))
    (Seq (Class [Ch CHR ''@''])
    (Seq (plus_re (Class [Range CHR ''a'' CHR ''z'', Range CHR ''A'' CHR ''Z'',
                          Range CHR ''0'' CHR ''9'', Ch CHR ''.'', Ch CHR ''-'']))
    (Seq (Class [Ch CHR ''.''])
         (at_least_two (Class [Range CHR ''a'' CHR ''z'', Range CHR ''A'' CHR ''Z''])))))"

section \<open>The user database of \<open>auth.py\<close>\<close>

text \<open>
  A reading of \<open>datetime.now()\<close> is an integer (microseconds on the wall clock); the
  operations that read the clock take the reading as their last argument. The ISO
  strings the source stores order as the readings do.
\<close>

type_synonym timestamp = int

text \<open>One entry of \<open>self.users\<close>, with the six keys \<open>create_user\<close> writes.\<close>

record account =
  password :: string
  email :: string
  role :: string
  created_at :: timestamp
  last_login :: "timestamp option"
  active :: bool

text \<open>
  The file \<open>users.json\<close>: missing, present but not loadable (\<open>open\<close> or \<open>json.load\<close>
  raises), or holding the dictionary an earlier \<open>json.dump\<close> wrote.
\<close>

datatype stored = Absent | Unreadable | Stored "string \<rightharpoonup> account"

text \<open>The exceptions the two modules raise or let through.\<close>

datatype exn =
    OSError
  | JSONDecodeError
  | FileNotFoundError
  | ValueError string
  | TypeError
  | KeyError
  | APIError
  | RequestException
  | ImageError

text \<open>
  A \<open>UserDatabase\<close> object together with the file it is bound to: \<open>users\<close> is
  \<open>self.users\<close>, \<open>db_file\<close> the content of the file \<open>self.db_file\<close> names, and \<open>writable\<close> tells whether
  \<open>open(self.db_file, "w")\<close> succeeds. No operation of the class changes \<open>writable\<close>.
\<close>

record database =
  users :: "string \<rightharpoonup> account"
  db_file :: stored
  writable :: bool

text \<open>The body of the \<open>try\<close> in \<open>_load_users\<close>: \<open>open\<close> and \<open>json.load\<close>.\<close>

definition read_json :: "stored \<Rightarrow> exn + (string \<rightharpoonup> account)" where
  "read_json f =
     (case f of
        Absent \<Rightarrow> Inl FileNotFoundError
      | Unreadable \<Rightarrow> Inl JSONDecodeError
      | Stored m \<Rightarrow> Inr m)"

text \<open>\<open>_load_users\<close>: the bare \<open>except\<close> turns every failure into the empty dictionary.\<close>

definition load_users :: "stored \<Rightarrow> exn + (string \<rightharpoonup> account)" where
  "load_users f =
     (if f \<noteq> Absent then
        (case read_json f of Inr m \<Rightarrow> Inr m | Inl e \<Rightarrow> Inr Map.empty)
      else Inr Map.empty)"

text \<open>\<open>__init__\<close>: \<open>self.users = self._load_users()\<close>; an exception leaves no object.\<close>

definition UserDatabase :: "stored \<Rightarrow> bool \<Rightarrow> exn + database" where
  "UserDatabase f w =
     (case load_users f of
        Inl e \<Rightarrow> Inl e
      | Inr m \<Rightarrow> Inr \<lparr>users = m, db_file = f, writable = w\<rparr>)"

text \<open>\<open>_save_users\<close>: rewrites the whole file, or raises when it cannot be opened.\<close>

definition save_users :: "database \<Rightarrow> (exn + unit) \<times> database" where
  "save_users db =
     (if writable db then (Inr (), db\<lparr>db_file := Stored (users db)\<rparr>) else (Inl OSError, db))"

text \<open>
  \<open>hash_password\<close>: \<open>hashlib.sha256(password.encode()).hexdigest()\<close>. The digest function
  belongs to the standard library and is the parameter \<open>sha256\<close>.
\<close>

definition hash_password :: "(string \<Rightarrow> string) \<Rightarrow> string \<Rightarrow> string" where
  "hash_password sha256 pw = sha256 pw"

definition validate_email :: "string \<Rightarrow> bool" where
  "validate_email e = re_match email_pattern e"

definition create_user ::
  "(string \<Rightarrow> string) \<Rightarrow> database \<Rightarrow> string \<Rightarrow> string \<Rightarrow> string \<Rightarrow> string \<Rightarrow> timestamp
     \<Rightarrow> (exn + bool \<times> string) \<times> database" where
  "create_user sha256 db username pw em rl now =
     (if username \<in> dom (users db) then (Inr (False, ''Username already exists''), db)
      else if \<not> validate_email em then (Inr (False, ''Invalid email format''), db)
      else if \<not> re_match username_pattern username then
        (Inr (False, ''Username can only contain letters, numbers, and underscores''), db)
      else
        (case save_users
                (db\<lparr>users := (users db)(username \<mapsto>
                       \<lparr>password = hash_password sha256 pw, email = em, role = rl,
                        created_at = now, last_login = None, active = True\<rparr>)\<rparr>) of
           (Inl e, db') \<Rightarrow> (Inl e, db')
         | (Inr _, db') \<Rightarrow> (Inr (True, ''User created successfully''), db')))"

text \<open>
  \<open>update_user\<close>: \<open>user\<close> is the dictionary inside \<open>self.users\<close>, so each assignment to
  it changes the store at once; an absent argument is \<open>None\<close>.
\<close>

definition update_user ::
  "(string \<Rightarrow> string) \<Rightarrow> database \<Rightarrow> string \<Rightarrow> string option \<Rightarrow> string option \<Rightarrow> bool option
     \<Rightarrow> string option \<Rightarrow> (exn + bool \<times> string) \<times> database" where
  "update_user sha256 db username em rl act new_password =
     (case users db username of
        None \<Rightarrow> (Inr (False, ''User not found''), db)
      | Some user \<Rightarrow>
          if (case em of Some e \<Rightarrow> \<not> validate_email e | None \<Rightarrow> False) then
            (Inr (False, ''Invalid email format''), db)
          else
            let user1 = (case em of Some e \<Rightarrow> user\<lparr>email := e\<rparr> | None \<Rightarrow> user);
                user2 = (case rl of Some r \<Rightarrow> user1\<lparr>role := r\<rparr> | None \<Rightarrow> user1);
                user3 = (case act of Some a \<Rightarrow> user2\<lparr>active := a\<rparr> | None \<Rightarrow> user2)
            in
              if (case new_password of Some p \<Rightarrow> length p < 6 | None \<Rightarrow> False) then
                (Inr (False, ''Password must be at least 6 characters''),
                 db\<lparr>users := (users db)(username \<mapsto> user3)\<rparr>)
              else
                let user4 = (case new_password of
                               Some p \<Rightarrow> user3\<lparr>password := hash_password sha256 p\<rparr>
                             | None \<Rightarrow> user3)
                in
                  (case save_users (db\<lparr>users := (users db)(username \<mapsto> user4)\<rparr>) of
                     (Inl e, db') \<Rightarrow> (Inl e, db')
                   | (Inr _, db') \<Rightarrow> (Inr (True, ''User updated successfully''), db')))"

definition delete_user :: "database \<Rightarrow> string \<Rightarrow> (exn + bool \<times> string) \<times> database" where
  "delete_user db username =
     (if username \<in> dom (users db) then
        (case save_users (db\<lparr>users := (users db)(username := None)\<rparr>) of
           (Inl e, db') \<Rightarrow> (Inl e, db')
         | (Inr _, db') \<Rightarrow> (Inr (True, ''User '' @ [CHR 0x27] @ username @ [CHR 0x27] @ '' deleted''), db'))
      else (Inr (False, ''User not found''), db))"

definition authenticate ::
  "(string \<Rightarrow> string) \<Rightarrow> database \<Rightarrow> string \<Rightarrow> string \<Rightarrow> timestamp
     \<Rightarrow> (exn + bool \<times> string \<times> string option) \<times> database" where
  "authenticate sha256 db username pw now =
     (case users db username of
        None \<Rightarrow> (Inr (False, ''User not found'', None), db)
      | Some user \<Rightarrow>
          if \<not> active user then (Inr (False, ''Account is deactivated'', None), db)
          else if password user = hash_password sha256 pw then
            (case save_users (db\<lparr>users := (users db)(username \<mapsto> user\<lparr>last_login := Some now\<rparr>)\<rparr>) of
               (Inl e, db') \<Rightarrow> (Inl e, db')
             | (Inr _, db') \<Rightarrow> (Inr (True, ''Login successful'', Some (role user)), db'))
          else (Inr (False, ''Invalid password'', None), db))"

text \<open>
  \<open>create_default_users\<close>: \<open>t_admin\<close> and \<open>t_user\<close> are the clock readings of the two
  \<open>create_user\<close> calls; the tuples \<open>create_user\<close> returns are dropped.
\<close>

definition create_default_users ::
  "(string \<Rightarrow> string) \<Rightarrow> stored \<Rightarrow> bool \<Rightarrow> timestamp \<Rightarrow> timestamp \<Rightarrow> exn + database" where
  "create_default_users sha256 f w t_admin t_user =
     (case UserDatabase f w of
        Inl e \<Rightarrow> Inl e
      | Inr user_db \<Rightarrow>
          (case (if ''admin'' \<notin> dom (users user_db) then
                   (case create_user sha256 user_db ''admin'' ''admin123'' ''admin@example.com''
                           ''admin'' t_admin of
                      (Inl e, db') \<Rightarrow> Inl e
                    | (Inr _, db') \<Rightarrow> Inr db')
                 else Inr user_db) of
             Inl e \<Rightarrow> Inl e
           | Inr db1 \<Rightarrow>
               (if ''user'' \<notin> dom (users db1) then
                  (case create_user sha256 db1 ''user'' ''user123'' ''user@example.com''
                          ''user'' t_user of
                     (Inl e, db') \<Rightarrow> Inl e
                   | (Inr _, db') \<Rightarrow> Inr db')
                else Inr db1)))"

text \<open>
  \<open>st.session_state\<close>: each of the four keys \<open>init_session_state\<close> looks at is absent
  (\<open>None\<close>) or holds a value.
\<close>

record session_state =
  ss_authenticated :: "bool option"
  ss_username :: "string option option"
  ss_user_role :: "string option option"
  ss_user_db :: "database option"

definition init_session_state ::
  "(string \<Rightarrow> string) \<Rightarrow> session_state \<Rightarrow> stored \<Rightarrow> bool \<Rightarrow> timestamp \<Rightarrow> timestamp
     \<Rightarrow> exn + session_state" where
  "init_session_state sha256 ss f w t_admin t_user =
     (let ss1 = (if ss_authenticated ss = None then ss\<lparr>ss_authenticated := Some False\<rparr> else ss);
          ss2 = (if ss_username ss1 = None then ss1\<lparr>ss_username := Some None\<rparr> else ss1);
          ss3 = (if ss_user_role ss2 = None then ss2\<lparr>ss_user_role := Some None\<rparr> else ss2)
      in if ss_user_db ss3 = None then
           (case create_default_users sha256 f w t_admin t_user of
              Inl e \<Rightarrow> Inl e
            | Inr db \<Rightarrow> Inr (ss3\<lparr>ss_user_db := Some db\<rparr>))
         else Inr ss3)"

section \<open>Python string operations used by \<open>tools.py\<close>\<close>

text \<open>\<open>str.isspace\<close> on the characters below 256.\<close>

definition is_space :: "char \<Rightarrow> bool" where
  "is_space c =
     (let n = (of_char c :: nat)
      in (9 \<le> n \<and> n \<le> 13) \<or> (28 \<le> n \<and> n \<le> 32) \<or> n = 133 \<or> n = 160)"

text \<open>\<open>s.strip()\<close>\<close>

definition py_strip :: "string \<Rightarrow> string" where
  "py_strip s = rev (dropWhile is_space (rev (dropWhile is_space s)))"

text \<open>
  \<open>s.replace(old, new)\<close>: the occurrences of \<open>old\<close> are taken from the left and do
  not overlap; an empty \<open>old\<close> matches before every character and at the end.
\<close>

fun replace_all :: "string \<Rightarrow> string \<Rightarrow> string \<Rightarrow> string" where
  "replace_all old new [] = []"
| "replace_all old new (c # cs) =
     (if old \<noteq> [] \<and> prefix old (c # cs)
      then new @ replace_all old new (drop (length old) (c # cs))
      else c # replace_all old new cs)"

definition py_replace :: "string \<Rightarrow> string \<Rightarrow> string \<Rightarrow> string" where
  "py_replace s old new =
     (if old = [] then new @ concat (map (\<lambda>c. c # new) s) else replace_all old new s)"

text \<open>\<open>s.split(sep)[0]\<close> for a non-empty \<open>sep\<close>: the text before its first occurrence.\<close>

fun split_head :: "string \<Rightarrow> string \<Rightarrow> string" where
  "split_head sep [] = []"
| "split_head sep (c # cs) = (if prefix sep (c # cs) then [] else c # split_head sep cs)"

text \<open>\<open>str(n)\<close> for a non-negative integer.\<close>

fun str_nat :: "nat \<Rightarrow> string" where
  "str_nat n =
     (if n < 10 then [''0123456789'' ! n]
      else str_nat (n div 10) @ [''0123456789'' ! (n mod 10)])"

declare str_nat.simps [simp del]

text \<open>The truth value of an optional string: \<open>None\<close> and \<open>""\<close> are false.\<close>

definition truthy :: "string option \<Rightarrow> bool" where
  "truthy u = (case u of None \<Rightarrow> False | Some s \<Rightarrow> s \<noteq> [])"

section \<open>The text generators of \<open>tools.py\<close>\<close>

text \<open>What \<open>json.loads\<close> returns. The items of a \<open>JObj\<close> are in the order of the text.\<close>

datatype json =
    JNull
  | JBool bool
  | JNum int
  | JStr string
  | JArr "json list"
  | JObj "(string \<times> json) list"

text \<open>\<open>key in v\<close>, \<open>v[key]\<close> and \<open>len(v)\<close> on a decoded value, for a string \<open>key\<close>.\<close>

definition py_in :: "string \<Rightarrow> json \<Rightarrow> exn + bool" where
  "py_in key v =
     (case v of
        JObj kvs \<Rightarrow> Inr (key \<in> fst ` set kvs)
      | JArr xs \<Rightarrow> Inr (JStr key \<in> set xs)
      | JStr s \<Rightarrow> Inr (sublist key s)
      | _ \<Rightarrow> Inl TypeError)"

definition py_getitem :: "json \<Rightarrow> string \<Rightarrow> exn + json" where
  "py_getitem v key =
     (case v of
        JObj kvs \<Rightarrow> (case map_of (rev kvs) key of Some x \<Rightarrow> Inr x | None \<Rightarrow> Inl KeyError)
      | _ \<Rightarrow> Inl TypeError)"

definition py_len :: "json \<Rightarrow> exn + nat" where
  "py_len v =
     (case v of
        JObj kvs \<Rightarrow> Inr (length (remdups (map fst kvs)))
      | JArr xs \<Rightarrow> Inr (length xs)
      | JStr s \<Rightarrow> Inr (length s)
      | _ \<Rightarrow> Inl TypeError)"

text \<open>
  The outcome of \<open>client.chat.completions.create\<close> followed by
  \<open>resp.choices[0].message.content\<close>: an exception, or the text of the reply.
\<close>

datatype 'a outcome = Raises | Returns 'a

text \<open>
  \<open>generate_posts\<close>. \<open>json_loads\<close> is \<open>json.loads\<close> (\<open>None\<close> when it raises
  \<open>JSONDecodeErroror\<close>) and \<open>resp\<close> the outcome of the one request the function makes;
  both \<open>except\<close> clauses re-raise.
\<close>

definition generate_posts ::
  "(string \<Rightarrow> json option) \<Rightarrow> string outcome \<Rightarrow> string \<Rightarrow> exn + json" where
  "generate_posts json_loads resp topic =
     (if topic = [] \<or> py_strip topic = [] then Inl (ValueError ''Topic cannot be empty'')
      else
        (case resp of
           Raises \<Rightarrow> Inl APIError
         | Returns text \<Rightarrow>
             let content = py_strip text
             in if content = [] then Inl (ValueError ''Empty response from OpenAI'')
                else
                  (case json_loads content of
                     None \<Rightarrow> Inl JSONDecodeError
                   | Some result \<Rightarrow>
                       (case py_in ''posts'' result of
                          Inl e \<Rightarrow> Inl e
                        | Inr False \<Rightarrow> Inl (ValueError ''Invalid response structure from OpenAI'')
                        | Inr True \<Rightarrow>
                            (case py_getitem result ''posts'' of
                               Inl e \<Rightarrow> Inl e
                             | Inr ps \<Rightarrow>
                                 (case py_len ps of
                                    Inl e \<Rightarrow> Inl e
                                  | Inr n \<Rightarrow>
                                      if n \<noteq> 3
                                      then Inl (ValueError ''Invalid response structure from OpenAI'')
                                      else Inr result))))))"

text \<open>
  The structure the specification promises: an object whose \<open>posts\<close> entry is a list of
  exactly three objects with string \<open>title\<close>, \<open>caption\<close> and \<open>hashtags\<close>, the last
  holding exactly five hashtags (one \<open>#\<close> each).
\<close>

definition count_hashtags :: "string \<Rightarrow> nat" where
  "count_hashtags s = length (filter (\<lambda>c. c = CHR ''#'') s)"

definition promised_post_draft :: "json \<Rightarrow> bool" where
  "promised_post_draft p =
     (case p of
        JObj kvs \<Rightarrow>
          (case (map_of (rev kvs) ''title'', map_of (rev kvs) ''caption'',
                 map_of (rev kvs) ''hashtags'') of
             (Some (JStr t), Some (JStr c), Some (JStr h)) \<Rightarrow> count_hashtags h = 5
           | _ \<Rightarrow> False)
      | _ \<Rightarrow> False)"

definition promised_three_posts :: "json \<Rightarrow> bool" where
  "promised_three_posts r =
     (case r of
        JObj kvs \<Rightarrow>
          (case map_of (rev kvs) ''posts'' of
             Some (JArr ps) \<Rightarrow> length ps = 3 \<and> list_all promised_post_draft ps
           | _ \<Rightarrow> False)
      | _ \<Rightarrow> False)"

subsection \<open>\<open>generate_image_prompts\<close>\<close>

text \<open>One element of \<open>posts["posts"]\<close>: a dictionary with string values.\<close>

type_synonym post = "string \<rightharpoonup> string"

text \<open>\<open>p.get(key, "")\<close>\<close>

definition get_or_empty :: "post \<Rightarrow> string \<Rightarrow> string" where
  "get_or_empty p key = (case p key of None \<Rightarrow> [] | Some v \<Rightarrow> v)"

text \<open>The text appended on the template path.\<close>

definition template_suffix :: string where
  "template_suffix =
     ''\<newline>CRITICAL: Absolutely NO text, NO words, NO letters, NO signs, NO labels, NO typography anywhere in the image.''
     @ ''\<newline>Do not generate: store signs, product labels, brand names, written text, numbers, letters, Arabic text, English text, or any readable characters.''
     @ ''\<newline>Clean product photography without any visible text or writing.''
     @ ''\<newline>Aspect ratio: 1:1 (square).''"

text \<open>The text appended to the reply of the remote model.\<close>

definition smart_suffix :: string where
  "smart_suffix =
     ''\<newline>CRITICAL: Absolutely NO text, NO words, NO letters, NO signs, NO labels, NO typography anywhere in the image.''
     @ ''\<newline>Do not generate: store signs, product labels, brand names, written text, numbers, letters, Arabic text, English text, or any readable characters.''
     @ ''\<newline>Clean product photography without any visible text or writing.''
     @ ''\<newline>Aspect ratio: 1:1 (square). Professional commercial photography.''"

definition template_prompt :: "string \<Rightarrow> string \<Rightarrow> string \<Rightarrow> string" where
  "template_prompt custom_prompt_template title caption =
     py_replace (py_replace custom_prompt_template ''[TITLE]'' title)
                ''[CAPTION]'' (take 100 caption)
     @ template_suffix"

text \<open>The request sent to the remote model when no template is given.\<close>

definition ai_prompt :: "string \<Rightarrow> string \<Rightarrow> string" where
  "ai_prompt title caption =
     ''\<newline>Generate a detailed image prompt for AI image generation based on this social media post:\<newline>''
     @ ''\<newline>Title: '' @ title
     @ ''\<newline>Caption: '' @ caption
     @ ''\<newline>\<newline>Create a professional product photography prompt that:''
     @ ''\<newline>1. Shows the actual products/items mentioned or implied in the post''
     @ ''\<newline>2. Uses appropriate styling for the industry (beauty/cosmetics/tech/fashion/etc)''
     @ ''\<newline>3. Is visually appealing and commercial-quality''
     @ ''\<newline>4. Relevant to UAE market''
     @ ''\<newline>5. No text in the image\<newline>''
     @ ''\<newline>Return ONLY the image generation prompt, nothing else. Be specific about products, lighting, and composition.\<newline>''"

definition fallback_prompt :: "string \<Rightarrow> string \<Rightarrow> string" where
  "fallback_prompt title caption =
     py_strip
       (''\<newline>Professional commercial photograph.''
        @ ''\<newline>Subject: '' @ title
        @ ''\<newline>Context: '' @ take 100 caption
        @ ''\<newline>Style: high-quality product photography, studio lighting''
        @ ''\<newline>Mood: professional, commercial, aspirational''
        @ ''\<newline>CRITICAL: Absolutely NO text, NO words, NO letters, NO signs, NO labels anywhere in the image.''
        @ ''\<newline>Clean photography without any visible text or writing.''
        @ ''\<newline>Aspect ratio: 1:1 (square).''
        @ ''\<newline>                '')"

text \<open>The last three lines of the fallback prompt.\<close>

definition fallback_suffix :: string where
  "fallback_suffix =
     ''\<newline>CRITICAL: Absolutely NO text, NO words, NO letters, NO signs, NO labels anywhere in the image.''
     @ ''\<newline>Clean photography without any visible text or writing.''
     @ ''\<newline>Aspect ratio: 1:1 (square).''"

text \<open>
  The loop over \<open>posts["posts"]\<close>. \<open>chat i request\<close> is the outcome of the request made
  for the post at index \<open>i\<close>: the reply's text, or \<open>None\<close> when anything in the \<open>try\<close>
  raises. A template counts when it is neither \<open>None\<close> nor empty. The \<open>print\<close> calls
  are left out.
\<close>

fun image_prompts_loop ::
  "(nat \<Rightarrow> string \<Rightarrow> string option) \<Rightarrow> string option \<Rightarrow> nat \<Rightarrow> post list \<Rightarrow> string list" where
  "image_prompts_loop chat custom_prompt_template i [] = []"
| "image_prompts_loop chat custom_prompt_template i (p # ps) =
     (let title = get_or_empty p ''title'';
          caption = get_or_empty p ''caption''
      in if title = [] then image_prompts_loop chat custom_prompt_template (Suc i) ps
         else
           (if truthy custom_prompt_template
            then template_prompt (the custom_prompt_template) title caption
            else
              (case chat i (ai_prompt title caption) of
                 Some content \<Rightarrow> py_strip content @ smart_suffix
               | None \<Rightarrow> fallback_prompt title caption))
           # image_prompts_loop chat custom_prompt_template (Suc i) ps)"

text \<open>
  \<open>generate_image_prompts\<close>: \<open>posts\<close> is \<open>None\<close> when the argument is empty or has no
  \<open>posts\<close> key, and the list under that key otherwise; the result is the list under
  \<open>image_prompts\<close>.
\<close>

definition generate_image_prompts ::
  "(nat \<Rightarrow> string \<Rightarrow> string option) \<Rightarrow> post list option \<Rightarrow> string option \<Rightarrow> string list" where
  "generate_image_prompts chat posts custom_prompt_template =
     (case posts of
        None \<Rightarrow> []
      | Some ps \<Rightarrow> image_prompts_loop chat custom_prompt_template 0 ps)"

section \<open>The image pipeline of \<open>tools.py\<close>\<close>

text \<open>
  The remote services and the local disk are parameters. \<open>dalle_generate\<close> is
  \<open>client.images.generate\<close> as a function of the prompt it is sent, returning the
  \<open>url\<close> fields of \<open>response.data\<close>; \<open>replicate_run\<close> is \<open>replicate_client.run\<close>,
  returning the items of its output (\<open>None\<close> for an item that is false, otherwise
  its \<open>str\<close>); \<open>http_get\<close> tells whether \<open>requests.get\<close> and \<open>raise_for_status\<close>
  succeed on a URL; \<open>write_file\<close> is the outcome of creating the directory and
  writing the downloaded bytes to a path; \<open>remove_file\<close> tells whether
  \<open>os.remove\<close> succeeds on a path; \<open>imgbb_api_key\<close> is \<open>IMGBB_API_KEY\<close>;
  \<open>imgbb_post\<close> is the upload request for a local path, returning the status code and
  the decoded body (its \<open>success\<close> flag and \<open>data.url\<close>), \<open>None\<close> when the body does
  not decode; \<open>overlay\<close> tells whether decoding, drawing and saving succeed in
  \<open>add_brand_text\<close> (the pixel work itself is not modelled).
\<close>

datatype write_outcome = Written | OpenFailed | WriteFailed

record services =
  dalle_generate :: "string \<Rightarrow> string option list outcome"
  replicate_run :: "string \<Rightarrow> string option list outcome"
  http_get :: "string \<Rightarrow> bool"
  write_file :: "string \<Rightarrow> write_outcome"
  remove_file :: "string \<Rightarrow> bool"
  imgbb_api_key :: string
  imgbb_post :: "string \<Rightarrow> (nat \<times> (bool \<times> string option) option) outcome"
  overlay :: "string \<Rightarrow> string \<Rightarrow> string \<Rightarrow> int \<Rightarrow> bool"

text \<open>
  What a run changes: the local files, and the record of the calls of the two
  generators, each with the prompt it was given.
\<close>

datatype call = Dalle_call string | Replicate_call string

fun prompt_of :: "call \<Rightarrow> string" where
  "prompt_of (Dalle_call p) = p"
| "prompt_of (Replicate_call p) = p"

record world =
  files :: "string set"
  calls :: "call list"

text \<open>
  \<open>upload_to_imgbb\<close>: every failure, a missing local file included, gives \<open>None\<close>.
\<close>

definition upload_to_imgbb :: "services \<Rightarrow> world \<Rightarrow> string \<Rightarrow> string option" where
  "upload_to_imgbb env w image_path =
     (if imgbb_api_key env = [] then None
      else if image_path \<notin> files w then None
      else
        (case imgbb_post env image_path of
           Raises \<Rightarrow> None
         | Returns (status_code, body) \<Rightarrow>
             if status_code = 200 then
               (case body of
                  None \<Rightarrow> None
                | Some (success, url) \<Rightarrow> if success then url else None)
             else None))"

definition generate_image_with_dalle ::
  "services \<Rightarrow> world \<Rightarrow> string \<Rightarrow> string option \<times> world" where
  "generate_image_with_dalle env w prompt =
     (let w' = w\<lparr>calls := calls w @ [Dalle_call prompt]\<rparr>;
          clean_prompt = take 1000 (py_strip (split_head ''CRITICAL:'' prompt))
      in (case dalle_generate env clean_prompt of
            Raises \<Rightarrow> None
          | Returns data \<Rightarrow> (case data of [] \<Rightarrow> None | url # _ \<Rightarrow> url),
          w'))"

definition generate_image_with_replicate ::
  "services \<Rightarrow> world \<Rightarrow> string \<Rightarrow> string option \<times> world" where
  "generate_image_with_replicate env w prompt =
     (let w' = w\<lparr>calls := calls w @ [Replicate_call prompt]\<rparr>;
          clean_prompt = take 1000 (py_strip (split_head ''CRITICAL:'' prompt))
      in (case replicate_run env clean_prompt of
            Raises \<Rightarrow> None
          | Returns output \<Rightarrow>
              (case output of [] \<Rightarrow> None | x # _ \<Rightarrow> if truthy x then x else None),
          w'))"

text \<open>
  \<open>upload_image_directly\<close>; \<open>t\<close> is \<open>int(datetime.now().timestamp())\<close>. A write that
  fails after the file was opened raises with the file on disk. \<open>os.remove\<close> stands in
  a \<open>try\<close> whose \<open>except\<close> passes: when it fails, the file stays and the result is
  returned all the same.
\<close>

definition upload_image_directly ::
  "services \<Rightarrow> world \<Rightarrow> string \<Rightarrow> nat \<Rightarrow> string option \<times> world" where
  "upload_image_directly env w image_url t =
     (if \<not> http_get env image_url then (None, w)
      else
        let temp_path = ''images/temp_'' @ str_nat t @ ''.jpg''
        in (case write_file env temp_path of
              OpenFailed \<Rightarrow> (None, w)
            | WriteFailed \<Rightarrow> (None, w\<lparr>files := insert temp_path (files w)\<rparr>)
            | Written \<Rightarrow>
                let w1 = w\<lparr>files := insert temp_path (files w)\<rparr>;
                    imgbb_url = upload_to_imgbb env w1 temp_path
                in (imgbb_url,
                    if remove_file env temp_path
                    then w1\<lparr>files := files w1 - {temp_path}\<rparr>
                    else w1)))"

text \<open>
  \<open>add_brand_text\<close>: the exception of any step is re-raised; on success the composed
  image is saved under \<open>images/branded_<t>.jpg\<close> and the path returned.
\<close>

definition add_brand_text ::
  "services \<Rightarrow> world \<Rightarrow> string \<Rightarrow> string \<Rightarrow> string \<Rightarrow> int \<Rightarrow> nat \<Rightarrow> (exn + string) \<times> world" where
  "add_brand_text env w image_url brand_text website_text text_size t =
     (if \<not> http_get env image_url then (Inl RequestException, w)
      else if \<not> overlay env image_url brand_text website_text text_size then (Inl ImageError, w)
      else
        let output_path = ''images/branded_'' @ str_nat t @ ''.jpg''
        in (Inr output_path, w\<lparr>files := insert output_path (files w)\<rparr>))"

text \<open>
  Lines 545 to 551 of \<open>generate_images\<close>: DALL-E first, Replicate when DALL-E gave
  nothing.
\<close>

definition generate_clean_url ::
  "services \<Rightarrow> world \<Rightarrow> string \<Rightarrow> string option \<times> world" where
  "generate_clean_url env w prompt =
     (case generate_image_with_dalle env w prompt of
        (clean_url, w1) \<Rightarrow>
          if \<not> truthy clean_url then generate_image_with_replicate env w1 prompt
          else (clean_url, w1))"

text \<open>
  \<open>generate_images\<close>: \<open>prompts\<close> is \<open>None\<close> when the argument is empty or has no
  \<open>image_prompts\<close> key and the list under that key otherwise; the result is the list
  under \<open>image_urls\<close>. \<open>t_temp\<close> and \<open>t_brand\<close> are the clock readings that name the
  two local files. No step inside the outer \<open>try\<close> raises, and \<open>time.sleep\<close> and the
  \<open>print\<close> calls are left out.
\<close>

definition generate_images ::
  "services \<Rightarrow> world \<Rightarrow> string list option \<Rightarrow> string option \<Rightarrow> string \<Rightarrow> int \<Rightarrow> nat \<Rightarrow> nat
     \<Rightarrow> string list \<times> world" where
  "generate_images env w prompts brand_text website_text text_size t_temp t_brand =
     (case prompts of
        None \<Rightarrow> ([], w)
      | Some [] \<Rightarrow> ([], w)
      | Some (prompt # _) \<Rightarrow>
          (case generate_clean_url env w prompt of
             (clean_url, w2) \<Rightarrow>
               if \<not> truthy clean_url then ([], w2)
               else
                 (case upload_image_directly env w2 (the clean_url) t_temp of
                    (imgbb_url, w3) \<Rightarrow>
                      let final_url = (if \<not> truthy imgbb_url then the clean_url
                                       else the imgbb_url)
                      in if truthy brand_text \<and> truthy imgbb_url then
                           (case add_brand_text env w3 final_url (the brand_text) website_text
                                   text_size t_brand of
                              (Inl e, w4) \<Rightarrow> ([final_url], w4)
                            | (Inr local_file, w4) \<Rightarrow>
                                let uploaded_url = upload_to_imgbb env w4 local_file
                                in if truthy uploaded_url then ([the uploaded_url], w4)
                                   else ([final_url], w4))
                         else if final_url \<noteq> [] then ([final_url], w3)
                         else ([the clean_url], w3))))"

section \<open>Properties of the user database\<close>

lemma validate_email_admin: "validate_email ''admin@example.com''"
  by (simp add: validate_email_def re_match_def email_pattern_def plus_re_def at_least_two_def)

lemma validate_email_user: "validate_email ''user@example.com''"
  by (simp add: validate_email_def re_match_def email_pattern_def plus_re_def at_least_two_def)

lemma username_admin: "re_match username_pattern ''admin''"
  by (simp add: re_match_def username_pattern_def plus_re_def)

lemma username_user: "re_match username_pattern ''user''"
  by (simp add: re_match_def username_pattern_def plus_re_def)

lemma validate_email_alice: "validate_email ''alice@x.com''"
  by (simp add: validate_email_def re_match_def email_pattern_def plus_re_def at_least_two_def)

lemma username_alice: "re_match username_pattern ''alice''"
  by (simp add: re_match_def username_pattern_def plus_re_def)

text \<open>
  C7, as the code has it: \<open>last_login\<close> is whatever \<open>datetime.now()\<close> reads at the
  login, and nothing compares it with \<open>created_at\<close>. When the wall clock reads 20 at the
  creation and 10 at the login that follows, the login succeeds and the account has
  \<open>last_login\<close> before \<open>created_at\<close>.
\<close>

theorem login_before_creation_time:
  "create_user (\<lambda>s. s) \<lparr>users = Map.empty, db_file = Absent, writable = True\<rparr>
      ''alice'' ''secret1'' ''alice@x.com'' ''user'' 20
     = (Inr (True, ''User created successfully''),
        \<lparr>users = [''alice'' \<mapsto> \<lparr>password = ''secret1'', email = ''alice@x.com'',
                    role = ''user'', created_at = 20, last_login = None, active = True\<rparr>],
         db_file = Stored [''alice'' \<mapsto> \<lparr>password = ''secret1'', email = ''alice@x.com'',
                    role = ''user'', created_at = 20, last_login = None, active = True\<rparr>],
         writable = True\<rparr>)
   \<and> authenticate (\<lambda>s. s)
        \<lparr>users = [''alice'' \<mapsto> \<lparr>password = ''secret1'', email = ''alice@x.com'',
                    role = ''user'', created_at = 20, last_login = None, active = True\<rparr>],
         db_file = Stored [''alice'' \<mapsto> \<lparr>password = ''secret1'', email = ''alice@x.com'',
                    role = ''user'', created_at = 20, last_login = None, active = True\<rparr>],
         writable = True\<rparr> ''alice'' ''secret1'' 10
     = (Inr (True, ''Login successful'', Some ''user''),
        \<lparr>users = [''alice'' \<mapsto> \<lparr>password = ''secret1'', email = ''alice@x.com'',
                    role = ''user'', created_at = 20, last_login = Some 10, active = True\<rparr>],
         db_file = Stored [''alice'' \<mapsto> \<lparr>password = ''secret1'', email = ''alice@x.com'',
                    role = ''user'', created_at = 20, last_login = Some 10, active = True\<rparr>],
         writable = True\<rparr>)
   \<and> \<not> created_at \<lparr>password = ''secret1'', email = ''alice@x.com'', role = ''user'',
                      created_at = 20, last_login = Some 10, active = True\<rparr> \<le> (10 :: int)"
  by (simp add: create_user_def authenticate_def save_users_def hash_password_def
                validate_email_alice username_alice)

text \<open>
  C7, amended: when \<open>create_user\<close> with role \<open>user\<close> returns success, an
  \<open>authenticate\<close> that follows at once with the same username and password returns
  success and the role \<open>user\<close>, and sets the account's \<open>last_login\<close> to the clock
  reading of that call, \<open>created_at\<close> staying the reading of the creation. So
  \<open>last_login\<close> is not before \<open>created_at\<close> exactly when the clock did not step back
  between the two calls.
\<close>

theorem create_then_authenticate:
  assumes "create_user sha256 db username pw em ''user'' t1 = (Inr (True, msg), db1)"
  shows "\<exists>db2 a. authenticate sha256 db1 username pw t2
                     = (Inr (True, ''Login successful'', Some ''user''), db2)
              \<and> users db2 username = Some a
              \<and> created_at a = t1 \<and> last_login a = Some t2
              \<and> ((\<exists>l. last_login a = Some l \<and> created_at a \<le> l) \<longleftrightarrow> t1 \<le> t2)
              \<and> db_file db2 = Stored (users db2)"
  using assms
  by (auto simp: create_user_def authenticate_def save_users_def split: if_splits)

theorem create_then_authenticate_witness:
  "create_user (\<lambda>s. s) \<lparr>users = Map.empty, db_file = Absent, writable = True\<rparr>
      ''alice'' ''secret1'' ''alice@x.com'' ''user'' 10
     = (Inr (True, ''User created successfully''),
        \<lparr>users = [''alice'' \<mapsto> \<lparr>password = ''secret1'', email = ''alice@x.com'',
                    role = ''user'', created_at = 10, last_login = None, active = True\<rparr>],
         db_file = Stored [''alice'' \<mapsto> \<lparr>password = ''secret1'', email = ''alice@x.com'',
                    role = ''user'', created_at = 10, last_login = None, active = True\<rparr>],
         writable = True\<rparr>)
   \<and> (\<exists>db2 a. authenticate (\<lambda>s. s)
          \<lparr>users = [''alice'' \<mapsto> \<lparr>password = ''secret1'', email = ''alice@x.com'',
                    role = ''user'', created_at = 10, last_login = None, active = True\<rparr>],
           db_file = Stored [''alice'' \<mapsto> \<lparr>password = ''secret1'', email = ''alice@x.com'',
                    role = ''user'', created_at = 10, last_login = None, active = True\<rparr>],
           writable = True\<rparr> ''alice'' ''secret1'' 20
          = (Inr (True, ''Login successful'', Some ''user''), db2)
        \<and> users db2 ''alice'' = Some a
        \<and> created_at a = 10 \<and> last_login a = Some 20
        \<and> (\<exists>l. last_login a = Some l \<and> created_at a \<le> l)
        \<and> db_file db2 = Stored (users db2))"
proof -
  let ?db1 = "\<lparr>users = [''alice'' \<mapsto> \<lparr>password = ''secret1'', email = ''alice@x.com'',
                    role = ''user'', created_at = 10, last_login = None, active = True\<rparr>],
         db_file = Stored [''alice'' \<mapsto> \<lparr>password = ''secret1'', email = ''alice@x.com'',
                    role = ''user'', created_at = 10, last_login = None, active = True\<rparr>],
         writable = True\<rparr>"
  have c: "create_user (\<lambda>s. s) \<lparr>users = Map.empty, db_file = Absent, writable = True\<rparr>
      ''alice'' ''secret1'' ''alice@x.com'' ''user'' 10
     = (Inr (True, ''User created successfully''), ?db1)"
    by (simp add: create_user_def save_users_def hash_password_def
                  validate_email_alice username_alice)
  have t: "(10 :: int) \<le> 20" by simp
  from create_then_authenticate [OF c, of 20] obtain db2 a where
    r: "authenticate (\<lambda>s. s) ?db1 ''alice'' ''secret1'' 20
          = (Inr (True, ''Login successful'', Some ''user''), db2)"
      "users db2 ''alice'' = Some a" "created_at a = 10" "last_login a = Some 20"
      "db_file db2 = Stored (users db2)"
    and o: "(\<exists>l. last_login a = Some l \<and> created_at a \<le> l) \<longleftrightarrow> (10 :: int) \<le> 20"
    by blast
  from o t have "\<exists>l. last_login a = Some l \<and> created_at a \<le> l" by blast
  with c r show ?thesis by blast
qed

text \<open>
  C9: \<open>create_user\<close> puts no constraint on the password. When the username is new and
  the email and the username pass their checks, the result is the same for every
  password, the empty one included: success when the file can be written, and the
  \<open>OSError\<close> of \<open>_save_users\<close> otherwise. The length check (at least 6 characters) is
  made by \<open>update_user\<close> only: it rejects, on the account just created, a password
  that \<open>create_user\<close> took.
\<close>

theorem create_user_any_password:
  assumes "username \<notin> dom (users db)"
    and "validate_email em"
    and "re_match username_pattern username"
  shows "create_user sha256 db username pw em rl now =
           (if writable db
            then (Inr (True, ''User created successfully''),
                  db\<lparr>users := (users db)(username \<mapsto>
                         \<lparr>password = hash_password sha256 pw, email = em, role = rl,
                          created_at = now, last_login = None, active = True\<rparr>),
                      db_file := Stored ((users db)(username \<mapsto>
                         \<lparr>password = hash_password sha256 pw, email = em, role = rl,
                          created_at = now, last_login = None, active = True\<rparr>))\<rparr>)
            else (Inl OSError,
                  db\<lparr>users := (users db)(username \<mapsto>
                         \<lparr>password = hash_password sha256 pw, email = em, role = rl,
                          created_at = now, last_login = None, active = True\<rparr>)\<rparr>))
         \<and> (length pw < 6 \<longrightarrow>
              fst (update_user sha256 (snd (create_user sha256 db username pw em rl now))
                     username None None None (Some pw))
                = Inr (False, ''Password must be at least 6 characters''))"
  using assms by (auto simp: create_user_def update_user_def save_users_def Let_def)

theorem create_user_any_password_witness:
  "''alice'' \<notin> dom (users \<lparr>users = Map.empty, db_file = Absent, writable = True\<rparr>)
   \<and> validate_email ''alice@x.com''
   \<and> re_match username_pattern ''alice''
   \<and> length '''' < (6 :: nat)
   \<and> fst (create_user (\<lambda>s. s) \<lparr>users = Map.empty, db_file = Absent, writable = True\<rparr>
             ''alice'' '''' ''alice@x.com'' ''user'' 10)
       = Inr (True, ''User created successfully'')
   \<and> fst (update_user (\<lambda>s. s)
             (snd (create_user (\<lambda>s. s) \<lparr>users = Map.empty, db_file = Absent, writable = True\<rparr>
                     ''alice'' '''' ''alice@x.com'' ''user'' 10))
             ''alice'' None None None (Some ''''))
       = Inr (False, ''Password must be at least 6 characters'')"
proof -
  let ?db = "\<lparr>users = Map.empty, db_file = Absent, writable = True\<rparr>"
  have h: "''alice'' \<notin> dom (users ?db)" by simp
  have l: "length '''' < (6 :: nat)" by simp
  note th = create_user_any_password
              [of "''alice''" ?db "''alice@x.com''" "\<lambda>s. s" "''''" "''user''" 10,
               OF h validate_email_alice username_alice]
  from th have a: "fst (create_user (\<lambda>s. s) ?db ''alice'' '''' ''alice@x.com'' ''user'' 10)
                     = Inr (True, ''User created successfully'')"
    by simp
  from th l have b: "fst (update_user (\<lambda>s. s)
             (snd (create_user (\<lambda>s. s) ?db ''alice'' '''' ''alice@x.com'' ''user'' 10))
             ''alice'' None None None (Some ''''))
       = Inr (False, ''Password must be at least 6 characters'')"
    by blast
  from h validate_email_alice username_alice l a b show ?thesis by blast
qed

text \<open>
  C10: \<open>update_user\<close> is not atomic on \<open>self.users\<close>. For an existing user, a valid or
  absent email and a new password of fewer than 6 characters, it returns the password
  error and leaves the file as it was, while the email, role and active values of the
  same call are already in the account in memory.
\<close>

theorem update_user_short_password:
  assumes "users db username = Some user"
    and "case em of Some e \<Rightarrow> validate_email e | None \<Rightarrow> True"
    and "length p < 6"
  shows "update_user sha256 db username em rl act (Some p) =
           (Inr (False, ''Password must be at least 6 characters''),
            db\<lparr>users := (users db)(username \<mapsto>
                  user\<lparr>email := (case em of Some e \<Rightarrow> e | None \<Rightarrow> email user),
                       role := (case rl of Some r \<Rightarrow> r | None \<Rightarrow> role user),
                       active := (case act of Some a \<Rightarrow> a | None \<Rightarrow> active user)\<rparr>)\<rparr>)
         \<and> db_file (snd (update_user sha256 db username em rl act (Some p))) = db_file db"
  using assms by (auto simp: update_user_def Let_def split: option.splits)

theorem update_user_short_password_witness:
  "users \<lparr>users = [''bob'' \<mapsto> \<lparr>password = ''h'', email = ''bob@x.io'', role = ''user'',
                     created_at = 5, last_login = None, active = True\<rparr>],
          db_file = Absent, writable = True\<rparr> ''bob''
     = Some \<lparr>password = ''h'', email = ''bob@x.io'', role = ''user'',
             created_at = 5, last_login = None, active = True\<rparr>
   \<and> validate_email ''alice@x.com'' \<and> length ''abc'' < 6
   \<and> update_user (\<lambda>s. s)
        \<lparr>users = [''bob'' \<mapsto> \<lparr>password = ''h'', email = ''bob@x.io'', role = ''user'',
                     created_at = 5, last_login = None, active = True\<rparr>],
         db_file = Absent, writable = True\<rparr>
        ''bob'' (Some ''alice@x.com'') (Some ''admin'') (Some False) (Some ''abc'')
     = (Inr (False, ''Password must be at least 6 characters''),
        \<lparr>users = [''bob'' \<mapsto> \<lparr>password = ''h'', email = ''alice@x.com'', role = ''admin'',
                     created_at = 5, last_login = None, active = False\<rparr>],
         db_file = Absent, writable = True\<rparr>)"
  using update_user_short_password
          [of "\<lparr>users = [''bob'' \<mapsto> \<lparr>password = ''h'', email = ''bob@x.io'', role = ''user'',
                     created_at = 5, last_login = None, active = True\<rparr>],
                db_file = Absent, writable = True\<rparr>"
              "''bob''"
              "\<lparr>password = ''h'', email = ''bob@x.io'', role = ''user'',
                created_at = 5, last_login = None, active = True\<rparr>"
              "Some ''alice@x.com''" "''abc''" "\<lambda>s. s" "Some ''admin''" "Some False"]
        validate_email_alice
  by simp

lemma create_user_persists:
  "create_user sha256 db uname pw em rl now = (Inr (True, m), db') \<Longrightarrow>
   db_file db' = Stored (users db')"
  by (auto simp: create_user_def save_users_def split: if_splits)

lemma delete_user_persists:
  "delete_user db uname = (Inr (True, m), db') \<Longrightarrow> db_file db' = Stored (users db')"
  by (auto simp: delete_user_def save_users_def split: if_splits)

lemma authenticate_persists:
  "authenticate sha256 db uname pw now = (Inr (True, m, r), db') \<Longrightarrow>
   db_file db' = Stored (users db')"
  by (auto simp: authenticate_def save_users_def split: if_splits option.splits)

lemma update_user_persists:
  "update_user sha256 db uname em rl act pw = (Inr (True, m), db') \<Longrightarrow>
   db_file db' = Stored (users db')"
  unfolding update_user_def Let_def save_users_def
  by (cases "users db uname") (auto split: if_splits)

lemma create_user_raises:
  "\<not> writable db \<Longrightarrow>
   fst (create_user sha256 (db\<lparr>writable := True\<rparr>) uname pw em rl now) = Inr (True, m) \<Longrightarrow>
   fst (create_user sha256 db uname pw em rl now) = Inl OSError"
  by (auto simp: create_user_def save_users_def split: if_splits)

lemma delete_user_raises:
  "\<not> writable db \<Longrightarrow>
   fst (delete_user (db\<lparr>writable := True\<rparr>) uname) = Inr (True, m) \<Longrightarrow>
   fst (delete_user db uname) = Inl OSError"
  by (auto simp: delete_user_def save_users_def split: if_splits)

lemma authenticate_raises:
  "\<not> writable db \<Longrightarrow>
   fst (authenticate sha256 (db\<lparr>writable := True\<rparr>) uname pw now) = Inr (True, m, r) \<Longrightarrow>
   fst (authenticate sha256 db uname pw now) = Inl OSError"
  by (auto simp: authenticate_def save_users_def split: if_splits option.splits)

lemma update_user_raises:
  "\<not> writable db \<Longrightarrow>
   fst (update_user sha256 (db\<lparr>writable := True\<rparr>) uname em rl act pw) = Inr (True, m) \<Longrightarrow>
   fst (update_user sha256 db uname em rl act pw) = Inl OSError"
  unfolding update_user_def Let_def save_users_def
  by (cases "users db uname") (auto split: if_splits)

text \<open>
  C4, as the code has it: the failure of a load does not reach the caller. On a file that
  cannot be read or parsed, \<open>_load_users\<close> returns the empty dictionary, and the
  constructor yields a database with no user.
\<close>

theorem load_failure_swallowed:
  "isl (read_json Unreadable) \<and> \<not> isl (load_users Unreadable)
   \<and> UserDatabase Unreadable True
       = Inr \<lparr>users = Map.empty, db_file = Unreadable, writable = True\<rparr>"
  by (simp add: read_json_def load_users_def UserDatabase_def)

text \<open>
  C4, amended: each of \<open>create_user\<close>, \<open>update_user\<close>, \<open>delete_user\<close> and a successful
  \<open>authenticate\<close> has written the whole of \<open>self.users\<close> to the file when it returns
  success, and the failure of a save reaches the caller: a call that succeeds when the
  file can be written raises \<open>OSError\<close> when it cannot. (A failed load is not an error:
  the store starts empty.)
\<close>

theorem mutations_persist_and_save_failure_propagates:
  "(fst (create_user sha256 db uname pw em rl now) = Inr (True, m1)
      \<longrightarrow> db_file (snd (create_user sha256 db uname pw em rl now))
            = Stored (users (snd (create_user sha256 db uname pw em rl now))))
   \<and> (fst (update_user sha256 db uname em' rl' act' pw') = Inr (True, m2)
      \<longrightarrow> db_file (snd (update_user sha256 db uname em' rl' act' pw'))
            = Stored (users (snd (update_user sha256 db uname em' rl' act' pw'))))
   \<and> (fst (delete_user db uname) = Inr (True, m3)
      \<longrightarrow> db_file (snd (delete_user db uname)) = Stored (users (snd (delete_user db uname))))
   \<and> (fst (authenticate sha256 db uname pw now) = Inr (True, m4, r)
      \<longrightarrow> db_file (snd (authenticate sha256 db uname pw now))
            = Stored (users (snd (authenticate sha256 db uname pw now))))
   \<and> (\<not> writable db \<longrightarrow>
        (fst (create_user sha256 (db\<lparr>writable := True\<rparr>) uname pw em rl now) = Inr (True, m1)
           \<longrightarrow> fst (create_user sha256 db uname pw em rl now) = Inl OSError)
      \<and> (fst (update_user sha256 (db\<lparr>writable := True\<rparr>) uname em' rl' act' pw') = Inr (True, m2)
           \<longrightarrow> fst (update_user sha256 db uname em' rl' act' pw') = Inl OSError)
      \<and> (fst (delete_user (db\<lparr>writable := True\<rparr>) uname) = Inr (True, m3)
           \<longrightarrow> fst (delete_user db uname) = Inl OSError)
      \<and> (fst (authenticate sha256 (db\<lparr>writable := True\<rparr>) uname pw now) = Inr (True, m4, r)
           \<longrightarrow> fst (authenticate sha256 db uname pw now) = Inl OSError))"
proof -
  have a: "fst (create_user sha256 db uname pw em rl now) = Inr (True, m1)
      \<longrightarrow> db_file (snd (create_user sha256 db uname pw em rl now))
            = Stored (users (snd (create_user sha256 db uname pw em rl now)))"
    using create_user_persists [of sha256 db uname pw em rl now m1]
    by (cases "create_user sha256 db uname pw em rl now") simp
  have b: "fst (update_user sha256 db uname em' rl' act' pw') = Inr (True, m2)
      \<longrightarrow> db_file (snd (update_user sha256 db uname em' rl' act' pw'))
            = Stored (users (snd (update_user sha256 db uname em' rl' act' pw')))"
    using update_user_persists [of sha256 db uname em' rl' act' pw' m2]
    by (cases "update_user sha256 db uname em' rl' act' pw'") simp
  have c: "fst (delete_user db uname) = Inr (True, m3)
      \<longrightarrow> db_file (snd (delete_user db uname)) = Stored (users (snd (delete_user db uname)))"
    using delete_user_persists [of db uname m3]
    by (cases "delete_user db uname") simp
  have d: "fst (authenticate sha256 db uname pw now) = Inr (True, m4, r)
      \<longrightarrow> db_file (snd (authenticate sha256 db uname pw now))
            = Stored (users (snd (authenticate sha256 db uname pw now)))"
    using authenticate_persists [of sha256 db uname pw now m4 r]
    by (cases "authenticate sha256 db uname pw now") simp
  from a b c d create_user_raises [of db sha256 uname pw em rl now m1]
       update_user_raises [of db sha256 uname em' rl' act' pw' m2]
       delete_user_raises [of db uname m3]
       authenticate_raises [of db sha256 uname pw now m4 r]
  show ?thesis by blast
qed

theorem mutations_persist_and_save_failure_propagates_witness:
  "fst (create_user (\<lambda>s. s)
          \<lparr>users = [''bob'' \<mapsto> \<lparr>password = ''secret1'', email = ''bob@x.io'', role = ''user'',
                       created_at = 5, last_login = None, active = True\<rparr>],
           db_file = Absent, writable = True\<rparr>
          ''alice'' ''secret1'' ''alice@x.com'' ''user'' 10)
     = Inr (True, ''User created successfully'')
   \<and> db_file (snd (create_user (\<lambda>s. s)
          \<lparr>users = [''bob'' \<mapsto> \<lparr>password = ''secret1'', email = ''bob@x.io'', role = ''user'',
                       created_at = 5, last_login = None, active = True\<rparr>],
           db_file = Absent, writable = True\<rparr>
          ''alice'' ''secret1'' ''alice@x.com'' ''user'' 10))
     = Stored (users (snd (create_user (\<lambda>s. s)
          \<lparr>users = [''bob'' \<mapsto> \<lparr>password = ''secret1'', email = ''bob@x.io'', role = ''user'',
                       created_at = 5, last_login = None, active = True\<rparr>],
           db_file = Absent, writable = True\<rparr>
          ''alice'' ''secret1'' ''alice@x.com'' ''user'' 10)))
   \<and> fst (update_user (\<lambda>s. s)
          \<lparr>users = [''bob'' \<mapsto> \<lparr>password = ''secret1'', email = ''bob@x.io'', role = ''user'',
                       created_at = 5, last_login = None, active = True\<rparr>],
           db_file = Absent, writable = True\<rparr>
          ''bob'' (Some ''alice@x.com'') None None (Some ''secret2''))
     = Inr (True, ''User updated successfully'')
   \<and> db_file (snd (update_user (\<lambda>s. s)
          \<lparr>users = [''bob'' \<mapsto> \<lparr>password = ''secret1'', email = ''bob@x.io'', role = ''user'',
                       created_at = 5, last_login = None, active = True\<rparr>],
           db_file = Absent, writable = True\<rparr>
          ''bob'' (Some ''alice@x.com'') None None (Some ''secret2'')))
     = Stored (users (snd (update_user (\<lambda>s. s)
          \<lparr>users = [''bob'' \<mapsto> \<lparr>password = ''secret1'', email = ''bob@x.io'', role = ''user'',
                       created_at = 5, last_login = None, active = True\<rparr>],
           db_file = Absent, writable = True\<rparr>
          ''bob'' (Some ''alice@x.com'') None None (Some ''secret2''))))
   \<and> (\<exists>m. fst (delete_user
          \<lparr>users = [''bob'' \<mapsto> \<lparr>password = ''secret1'', email = ''bob@x.io'', role = ''user'',
                       created_at = 5, last_login = None, active = True\<rparr>],
           db_file = Absent, writable = True\<rparr> ''bob'') = Inr (True, m))
   \<and> db_file (snd (delete_user
          \<lparr>users = [''bob'' \<mapsto> \<lparr>password = ''secret1'', email = ''bob@x.io'', role = ''user'',
                       created_at = 5, last_login = None, active = True\<rparr>],
           db_file = Absent, writable = True\<rparr> ''bob''))
     = Stored (users (snd (delete_user
          \<lparr>users = [''bob'' \<mapsto> \<lparr>password = ''secret1'', email = ''bob@x.io'', role = ''user'',
                       created_at = 5, last_login = None, active = True\<rparr>],
           db_file = Absent, writable = True\<rparr> ''bob'')))
   \<and> fst (authenticate (\<lambda>s. s)
          \<lparr>users = [''bob'' \<mapsto> \<lparr>password = ''secret1'', email = ''bob@x.io'', role = ''user'',
                       created_at = 5, last_login = None, active = True\<rparr>],
           db_file = Absent, writable = True\<rparr> ''bob'' ''secret1'' 10)
     = Inr (True, ''Login successful'', Some ''user'')
   \<and> db_file (snd (authenticate (\<lambda>s. s)
          \<lparr>users = [''bob'' \<mapsto> \<lparr>password = ''secret1'', email = ''bob@x.io'', role = ''user'',
                       created_at = 5, last_login = None, active = True\<rparr>],
           db_file = Absent, writable = True\<rparr> ''bob'' ''secret1'' 10))
     = Stored (users (snd (authenticate (\<lambda>s. s)
          \<lparr>users = [''bob'' \<mapsto> \<lparr>password = ''secret1'', email = ''bob@x.io'', role = ''user'',
                       created_at = 5, last_login = None, active = True\<rparr>],
           db_file = Absent, writable = True\<rparr> ''bob'' ''secret1'' 10)))
   \<and> \<not> writable
          \<lparr>users = [''bob'' \<mapsto> \<lparr>password = ''secret1'', email = ''bob@x.io'', role = ''user'',
                       created_at = 5, last_login = None, active = True\<rparr>],
           db_file = Absent, writable = False\<rparr>
   \<and> fst (create_user (\<lambda>s. s)
          \<lparr>users = [''bob'' \<mapsto> \<lparr>password = ''secret1'', email = ''bob@x.io'', role = ''user'',
                       created_at = 5, last_login = None, active = True\<rparr>],
           db_file = Absent, writable = False\<rparr>
          ''alice'' ''secret1'' ''alice@x.com'' ''user'' 10)
     = Inl OSError
   \<and> fst (update_user (\<lambda>s. s)
          \<lparr>users = [''bob'' \<mapsto> \<lparr>password = ''secret1'', email = ''bob@x.io'', role = ''user'',
                       created_at = 5, last_login = None, active = True\<rparr>],
           db_file = Absent, writable = False\<rparr>
          ''bob'' (Some ''alice@x.com'') None None (Some ''secret2''))
     = Inl OSError
   \<and> fst (delete_user
          \<lparr>users = [''bob'' \<mapsto> \<lparr>password = ''secret1'', email = ''bob@x.io'', role = ''user'',
                       created_at = 5, last_login = None, active = True\<rparr>],
           db_file = Absent, writable = False\<rparr> ''bob'')
     = Inl OSError
   \<and> fst (authenticate (\<lambda>s. s)
          \<lparr>users = [''bob'' \<mapsto> \<lparr>password = ''secret1'', email = ''bob@x.io'', role = ''user'',
                       created_at = 5, last_login = None, active = True\<rparr>],
           db_file = Absent, writable = False\<rparr> ''bob'' ''secret1'' 10)
     = Inl OSError"
proof -
  let ?bob = "\<lparr>password = ''secret1'', email = ''bob@x.io'', role = ''user'',
               created_at = 5, last_login = None, active = True\<rparr>"
  let ?dbw = "\<lparr>users = [''bob'' \<mapsto> ?bob], db_file = Absent, writable = True\<rparr>"
  let ?dbu = "\<lparr>users = [''bob'' \<mapsto> ?bob], db_file = Absent, writable = False\<rparr>"
  let ?m3 = "''User '' @ [CHR 0x27] @ ''bob'' @ [CHR 0x27] @ '' deleted''"
  have w: "?dbu\<lparr>writable := True\<rparr> = ?dbw" by simp
  have u: "\<not> writable ?dbu" by simp
  have c: "fst (create_user (\<lambda>s. s) ?dbw ''alice'' ''secret1'' ''alice@x.com'' ''user'' 10)
             = Inr (True, ''User created successfully'')"
    by (simp add: create_user_def save_users_def validate_email_alice username_alice)
  have p: "fst (update_user (\<lambda>s. s) ?dbw ''bob'' (Some ''alice@x.com'') None None
                  (Some ''secret2''))
             = Inr (True, ''User updated successfully'')"
    by (simp add: update_user_def save_users_def validate_email_alice Let_def)
  have d: "fst (delete_user ?dbw ''bob'') = Inr (True, ?m3)"
    by (simp add: delete_user_def save_users_def)
  have a: "fst (authenticate (\<lambda>s. s) ?dbw ''bob'' ''secret1'' 10)
             = Inr (True, ''Login successful'', Some ''user'')"
    by (simp add: authenticate_def save_users_def hash_password_def)
  note t1 = mutations_persist_and_save_failure_propagates
              [of "\<lambda>s. s" ?dbw "''alice''" "''secret1''" "''alice@x.com''" "''user''" 10
                  "''User created successfully''"]
  note t2 = mutations_persist_and_save_failure_propagates
              [of "\<lambda>s. s" ?dbw "''bob''" "''secret1''" _ _ 10 _
                  "Some ''alice@x.com''" None None "Some ''secret2''"
                  "''User updated successfully''" ?m3 "''Login successful''" "Some ''user''"]
  note t3 = mutations_persist_and_save_failure_propagates
              [of "\<lambda>s. s" ?dbu "''alice''" "''secret1''" "''alice@x.com''" "''user''" 10
                  "''User created successfully''", unfolded w]
  note t4 = mutations_persist_and_save_failure_propagates
              [of "\<lambda>s. s" ?dbu "''bob''" "''secret1''" _ _ 10 _
                  "Some ''alice@x.com''" None None "Some ''secret2''"
                  "''User updated successfully''" ?m3 "''Login successful''" "Some ''user''",
               unfolded w]
  from t1 c have c': "db_file (snd (create_user (\<lambda>s. s) ?dbw ''alice'' ''secret1''
                                      ''alice@x.com'' ''user'' 10))
        = Stored (users (snd (create_user (\<lambda>s. s) ?dbw ''alice'' ''secret1''
                                      ''alice@x.com'' ''user'' 10)))"
    by blast
  from t2 p have p': "db_file (snd (update_user (\<lambda>s. s) ?dbw ''bob'' (Some ''alice@x.com'')
                                      None None (Some ''secret2'')))
        = Stored (users (snd (update_user (\<lambda>s. s) ?dbw ''bob'' (Some ''alice@x.com'')
                                      None None (Some ''secret2''))))"
    by blast
  from t2 d have d': "db_file (snd (delete_user ?dbw ''bob''))
        = Stored (users (snd (delete_user ?dbw ''bob'')))"
    by blast
  from t2 a have a': "db_file (snd (authenticate (\<lambda>s. s) ?dbw ''bob'' ''secret1'' 10))
        = Stored (users (snd (authenticate (\<lambda>s. s) ?dbw ''bob'' ''secret1'' 10)))"
    by blast
  from t3 u c have c'': "fst (create_user (\<lambda>s. s) ?dbu ''alice'' ''secret1'' ''alice@x.com''
                               ''user'' 10) = Inl OSError"
    by blast
  from t4 u p have p'': "fst (update_user (\<lambda>s. s) ?dbu ''bob'' (Some ''alice@x.com'') None None
                               (Some ''secret2'')) = Inl OSError"
    by blast
  from t4 u d have d'': "fst (delete_user ?dbu ''bob'') = Inl OSError"
    by blast
  from t4 u a have a'': "fst (authenticate (\<lambda>s. s) ?dbu ''bob'' ''secret1'' 10) = Inl OSError"
    by blast
  from d have d0: "\<exists>m. fst (delete_user ?dbw ''bob'') = Inr (True, m)" by blast
  from c c' p p' d0 d' a a' u c'' p'' d'' a'' show ?thesis by blast
qed

lemma create_user_accepts:
  assumes "uname \<notin> dom (users db)" "validate_email em" "re_match username_pattern uname"
    "writable db"
  shows "create_user sha256 db uname pw em rl now =
           (Inr (True, ''User created successfully''),
            db\<lparr>users := (users db)(uname \<mapsto>
                   \<lparr>password = hash_password sha256 pw, email = em, role = rl,
                    created_at = now, last_login = None, active = True\<rparr>),
                db_file := Stored ((users db)(uname \<mapsto>
                   \<lparr>password = hash_password sha256 pw, email = em, role = rl,
                    created_at = now, last_login = None, active = True\<rparr>))\<rparr>)"
  using assms by (simp add: create_user_def save_users_def)

lemma create_user_keeps:
  "create_user sha256 db uname pw em rl now = (r, db') \<Longrightarrow> users db name = Some a \<Longrightarrow>
   users db' name = Some a"
  by (auto simp: create_user_def save_users_def split: if_splits)

lemma authenticate_accepts:
  assumes "users db uname = Some a" "active a" "password a = hash_password sha256 pw"
    "writable db"
  shows "fst (authenticate sha256 db uname pw now)
           = Inr (True, ''Login successful'', Some (role a))"
  using assms by (simp add: authenticate_def save_users_def)

lemma create_default_users_writable:
  assumes "load_users f = Inr m"
  shows "\<exists>db. create_default_users sha256 f True t_admin t_user = Inr db
           \<and> writable db
           \<and> users db ''admin'' = Some (case m ''admin'' of Some a \<Rightarrow> a | None \<Rightarrow>
                      \<lparr>password = hash_password sha256 ''admin123'',
                       email = ''admin@example.com'', role = ''admin'',
                       created_at = t_admin, last_login = None, active = True\<rparr>)
           \<and> users db ''user'' = Some (case m ''user'' of Some a \<Rightarrow> a | None \<Rightarrow>
                      \<lparr>password = hash_password sha256 ''user123'',
                       email = ''user@example.com'', role = ''user'',
                       created_at = t_user, last_login = None, active = True\<rparr>)"
proof -
  let ?db0 = "\<lparr>users = m, db_file = f, writable = True\<rparr>"
  have u: "UserDatabase f True = Inr ?db0"
    using assms by (simp add: UserDatabase_def)
  show ?thesis
  proof (cases "m ''admin''")
    case None
    note adm = None
    have c1: "create_user sha256 ?db0 ''admin'' ''admin123'' ''admin@example.com'' ''admin''
                t_admin
              = (Inr (True, ''User created successfully''),
                 ?db0\<lparr>users := (users ?db0)(''admin'' \<mapsto>
                        \<lparr>password = hash_password sha256 ''admin123'',
                         email = ''admin@example.com'', role = ''admin'',
                         created_at = t_admin, last_login = None, active = True\<rparr>),
                      db_file := Stored ((users ?db0)(''admin'' \<mapsto>
                        \<lparr>password = hash_password sha256 ''admin123'',
                         email = ''admin@example.com'', role = ''admin'',
                         created_at = t_admin, last_login = None, active = True\<rparr>))\<rparr>)"
      by (rule create_user_accepts)
         (simp_all add: adm dom_def validate_email_admin username_admin)
    show ?thesis
    proof (cases "m ''user''")
      case None
      show ?thesis
        by (simp add: create_default_users_def u c1 adm None dom_def create_user_accepts
                      validate_email_user username_user)
    next
      case (Some b)
      show ?thesis
        by (simp add: create_default_users_def u c1 adm Some dom_def)
    qed
  next
    case (Some a)
    note adm = Some
    show ?thesis
    proof (cases "m ''user''")
      case None
      show ?thesis
        by (simp add: create_default_users_def u adm None dom_def create_user_accepts
                      validate_email_user username_user)
    next
      case (Some b)
      show ?thesis
        by (simp add: create_default_users_def u adm Some dom_def)
    qed
  qed
qed

lemma create_default_users_keeps:
  assumes "load_users f = Inr m"
    and "create_default_users sha256 f w t_admin t_user = Inr db"
    and "m name = Some a"
  shows "users db name = Some a"
proof -
  let ?db0 = "\<lparr>users = m, db_file = f, writable = w\<rparr>"
  have u: "UserDatabase f w = Inr ?db0"
    using assms(1) by (simp add: UserDatabase_def)
  obtain r1 db1 where
    c1: "create_user sha256 ?db0 ''admin'' ''admin123'' ''admin@example.com'' ''admin'' t_admin
           = (r1, db1)"
    by (cases "create_user sha256 ?db0 ''admin'' ''admin123'' ''admin@example.com'' ''admin''
                 t_admin")
  have k1: "users db1 name = Some a"
    using create_user_keeps [OF c1] assms(3) by simp
  let ?d1 = "if ''admin'' \<notin> dom m then db1 else ?db0"
  have kd: "users ?d1 name = Some a"
    using k1 assms(3) by simp
  obtain r2 db2 where
    c2: "create_user sha256 ?d1 ''user'' ''user123'' ''user@example.com'' ''user'' t_user
           = (r2, db2)"
    by (cases "create_user sha256 ?d1 ''user'' ''user123'' ''user@example.com'' ''user'' t_user")
  have k2: "users db2 name = Some a"
    using create_user_keeps [OF c2 kd] .
  from assms(2) show ?thesis
    unfolding create_default_users_def u
    using c1 c2 k1 k2 kd assms(3)
    by (auto split: if_splits sum.splits)
qed

lemma init_session_state_fresh:
  "ss_user_db ss = None \<Longrightarrow>
   create_default_users sha256 f w t_admin t_user = Inr db \<Longrightarrow>
   \<exists>ss'. init_session_state sha256 ss f w t_admin t_user = Inr ss' \<and> ss_user_db ss' = Some db"
  by (simp add: init_session_state_def Let_def)

text \<open>
  C8: \<open>create_default_users\<close>, which \<open>init_session_state\<close> runs for a session that has
  no \<open>user_db\<close> yet. Let \<open>m\<close> be the dictionary loaded from the file (empty when there
  is no file). When the file can be written, the call returns a database in which
  \<open>admin\<close>, if \<open>m\<close> did not have it, is the account with the hash of \<open>admin123\<close> and the
  role \<open>admin\<close>, and \<open>user\<close>, if \<open>m\<close> did not have it, the account with the hash of
  \<open>user123\<close> and the role \<open>user\<close>; both passwords then authenticate. Whatever the file
  allows, every account of \<open>m\<close> is in the returned database as it was: no existing
  account is overwritten.
\<close>

theorem create_default_users_accounts:
  assumes "load_users f = Inr m"
  shows "(w \<longrightarrow>
           (\<exists>db. create_default_users sha256 f w t_admin t_user = Inr db
              \<and> (m ''admin'' = None \<longrightarrow>
                    users db ''admin'' =
                      Some \<lparr>password = hash_password sha256 ''admin123'',
                            email = ''admin@example.com'', role = ''admin'',
                            created_at = t_admin, last_login = None, active = True\<rparr>
                  \<and> fst (authenticate sha256 db ''admin'' ''admin123'' t)
                      = Inr (True, ''Login successful'', Some ''admin''))
              \<and> (m ''user'' = None \<longrightarrow>
                    users db ''user'' =
                      Some \<lparr>password = hash_password sha256 ''user123'',
                            email = ''user@example.com'', role = ''user'',
                            created_at = t_user, last_login = None, active = True\<rparr>
                  \<and> fst (authenticate sha256 db ''user'' ''user123'' t)
                      = Inr (True, ''Login successful'', Some ''user''))))
       \<and> (\<forall>db name a. create_default_users sha256 f w t_admin t_user = Inr db
              \<longrightarrow> m name = Some a \<longrightarrow> users db name = Some a)"
proof (intro conjI impI allI)
  assume w
  from create_default_users_writable [OF assms, of sha256 t_admin t_user]
  obtain db where
    d: "create_default_users sha256 f True t_admin t_user = Inr db" and
    wr: "writable db" and
    a: "users db ''admin'' = Some (case m ''admin'' of Some a \<Rightarrow> a | None \<Rightarrow>
                      \<lparr>password = hash_password sha256 ''admin123'',
                       email = ''admin@example.com'', role = ''admin'',
                       created_at = t_admin, last_login = None, active = True\<rparr>)" and
    b: "users db ''user'' = Some (case m ''user'' of Some a \<Rightarrow> a | None \<Rightarrow>
                      \<lparr>password = hash_password sha256 ''user123'',
                       email = ''user@example.com'', role = ''user'',
                       created_at = t_user, last_login = None, active = True\<rparr>)"
    by blast
  have "m ''admin'' = None \<longrightarrow>
          fst (authenticate sha256 db ''admin'' ''admin123'' t)
            = Inr (True, ''Login successful'', Some ''admin'')"
    using a wr by (auto simp: authenticate_def save_users_def)
  moreover have "m ''user'' = None \<longrightarrow>
          fst (authenticate sha256 db ''user'' ''user123'' t)
            = Inr (True, ''Login successful'', Some ''user'')"
    using b wr by (auto simp: authenticate_def save_users_def)
  ultimately show "\<exists>db. create_default_users sha256 f w t_admin t_user = Inr db
              \<and> (m ''admin'' = None \<longrightarrow>
                    users db ''admin'' =
                      Some \<lparr>password = hash_password sha256 ''admin123'',
                            email = ''admin@example.com'', role = ''admin'',
                            created_at = t_admin, last_login = None, active = True\<rparr>
                  \<and> fst (authenticate sha256 db ''admin'' ''admin123'' t)
                      = Inr (True, ''Login successful'', Some ''admin''))
              \<and> (m ''user'' = None \<longrightarrow>
                    users db ''user'' =
                      Some \<lparr>password = hash_password sha256 ''user123'',
                            email = ''user@example.com'', role = ''user'',
                            created_at = t_user, last_login = None, active = True\<rparr>
                  \<and> fst (authenticate sha256 db ''user'' ''user123'' t)
                      = Inr (True, ''Login successful'', Some ''user''))"
    using d a b \<open>w\<close> by (intro exI [of _ db]) simp
next
  fix db name a
  assume "create_default_users sha256 f w t_admin t_user = Inr db" "m name = Some a"
  then show "users db name = Some a"
    using create_default_users_keeps [OF assms] by blast
qed

theorem create_default_users_accounts_witness:
  "load_users Absent = Inr Map.empty
   \<and> (\<exists>db. create_default_users (\<lambda>s. s) Absent True 1 2 = Inr db
         \<and> users db ''admin'' =
             Some \<lparr>password = ''admin123'', email = ''admin@example.com'', role = ''admin'',
                   created_at = 1, last_login = None, active = True\<rparr>
         \<and> fst (authenticate (\<lambda>s. s) db ''admin'' ''admin123'' 3)
             = Inr (True, ''Login successful'', Some ''admin'')
         \<and> users db ''user'' =
             Some \<lparr>password = ''user123'', email = ''user@example.com'', role = ''user'',
                   created_at = 2, last_login = None, active = True\<rparr>
         \<and> fst (authenticate (\<lambda>s. s) db ''user'' ''user123'' 3)
             = Inr (True, ''Login successful'', Some ''user''))
   \<and> load_users (Stored [''admin'' \<mapsto>
         \<lparr>password = ''x'', email = ''root@x.io'', role = ''user'',
          created_at = 0, last_login = Some 7, active = False\<rparr>])
       = Inr [''admin'' \<mapsto>
         \<lparr>password = ''x'', email = ''root@x.io'', role = ''user'',
          created_at = 0, last_login = Some 7, active = False\<rparr>]
   \<and> (\<exists>db. create_default_users (\<lambda>s. s) (Stored [''admin'' \<mapsto>
         \<lparr>password = ''x'', email = ''root@x.io'', role = ''user'',
          created_at = 0, last_login = Some 7, active = False\<rparr>]) True 1 2 = Inr db
         \<and> users db ''admin'' = Some
         \<lparr>password = ''x'', email = ''root@x.io'', role = ''user'',
          created_at = 0, last_login = Some 7, active = False\<rparr>)"
proof -
  let ?old = "\<lparr>password = ''x'', email = ''root@x.io'', role = ''user'',
               created_at = 0 :: int, last_login = Some (7 :: int), active = False\<rparr>"
  have l1: "load_users Absent = Inr Map.empty"
    by (simp add: load_users_def)
  have l2: "load_users (Stored [''admin'' \<mapsto> ?old]) = Inr [''admin'' \<mapsto> ?old]"
    by (simp add: load_users_def read_json_def)
  note t1 = create_default_users_accounts [OF l1, of True "\<lambda>s. s" 1 2 3]
  note t2 = create_default_users_accounts [OF l2, of True "\<lambda>s. s" 1 2 3]
  from t1 have p1: "\<exists>db. create_default_users (\<lambda>s. s) Absent True 1 2 = Inr db
         \<and> users db ''admin'' =
             Some \<lparr>password = ''admin123'', email = ''admin@example.com'', role = ''admin'',
                   created_at = 1, last_login = None, active = True\<rparr>
         \<and> fst (authenticate (\<lambda>s. s) db ''admin'' ''admin123'' 3)
             = Inr (True, ''Login successful'', Some ''admin'')
         \<and> users db ''user'' =
             Some \<lparr>password = ''user123'', email = ''user@example.com'', role = ''user'',
                   created_at = 2, last_login = None, active = True\<rparr>
         \<and> fst (authenticate (\<lambda>s. s) db ''user'' ''user123'' 3)
             = Inr (True, ''Login successful'', Some ''user'')"
    by (simp add: hash_password_def)
  have s: "[''admin'' \<mapsto> ?old] ''admin'' = Some ?old" by simp
  from t2 s have p2: "\<exists>db. create_default_users (\<lambda>s. s) (Stored [''admin'' \<mapsto> ?old]) True 1 2
                         = Inr db \<and> users db ''admin'' = Some ?old"
    by blast
  from l1 p1 l2 p2 show ?thesis by blast
qed

section \<open>Properties of the image pipeline\<close>

lemma dalle_calls:
  "calls (snd (generate_image_with_dalle env w prompt)) = calls w @ [Dalle_call prompt]"
  by (simp add: generate_image_with_dalle_def Let_def)

lemma dalle_files:
  "files (snd (generate_image_with_dalle env w prompt)) = files w"
  by (simp add: generate_image_with_dalle_def Let_def)

lemma replicate_calls:
  "calls (snd (generate_image_with_replicate env w prompt)) = calls w @ [Replicate_call prompt]"
  by (simp add: generate_image_with_replicate_def Let_def)

lemma replicate_files:
  "files (snd (generate_image_with_replicate env w prompt)) = files w"
  by (simp add: generate_image_with_replicate_def Let_def)

lemma dalle_url_any_world:
  "fst (generate_image_with_dalle env w prompt) = fst (generate_image_with_dalle env w' prompt)"
  by (simp add: generate_image_with_dalle_def Let_def)

lemma replicate_url_any_world:
  "fst (generate_image_with_replicate env w prompt)
     = fst (generate_image_with_replicate env w' prompt)"
  by (simp add: generate_image_with_replicate_def Let_def)

lemma clean_url_calls:
  "calls (snd (generate_clean_url env w prompt)) =
     calls w @ Dalle_call prompt #
       (if truthy (fst (generate_image_with_dalle env w prompt)) then []
        else [Replicate_call prompt])"
  by (simp add: generate_clean_url_def split_beta replicate_calls dalle_calls)

lemma clean_url_files:
  "files (snd (generate_clean_url env w prompt)) = files w"
  by (simp add: generate_clean_url_def split_beta replicate_files dalle_files)

lemma clean_url_value:
  "fst (generate_clean_url env w prompt) =
     (if truthy (fst (generate_image_with_dalle env w prompt))
      then fst (generate_image_with_dalle env w prompt)
      else fst (generate_image_with_replicate env w prompt))"
  using replicate_url_any_world [of env "snd (generate_image_with_dalle env w prompt)" prompt w]
  by (simp add: generate_clean_url_def split_beta)

lemma upload_directly_calls:
  "calls (snd (upload_image_directly env w u t)) = calls w"
  by (simp add: upload_image_directly_def Let_def split: write_outcome.splits)

lemma add_brand_text_calls:
  "calls (snd (add_brand_text env w u b wt ts t)) = calls w"
  by (simp add: add_brand_text_def Let_def)

lemma generate_images_calls:
  "calls (snd (generate_images env w (Some (prompt # rest)) bt wt ts t1 t2))
     = calls (snd (generate_clean_url env w prompt))"
  by (simp add: generate_images_def split_beta Let_def upload_directly_calls add_brand_text_calls
           split: sum.splits)

lemma generate_images_empty_iff:
  "fst (generate_images env w (Some (prompt # rest)) bt wt ts t1 t2) = []
     \<longleftrightarrow> \<not> truthy (fst (generate_clean_url env w prompt))"
  by (simp add: generate_images_def split_beta Let_def split: sum.splits)

lemma generate_images_at_most_one:
  "length (fst (generate_images env w prompts bt wt ts t1 t2)) \<le> 1"
  by (simp add: generate_images_def split_beta Let_def split: sum.splits option.splits list.splits)


lemma upload_directly_url_any_calls:
  "files w' = files w \<Longrightarrow>
   fst (upload_image_directly env w' u t) = fst (upload_image_directly env w u t)"
  by (simp add: upload_image_directly_def upload_to_imgbb_def Let_def
           split: write_outcome.splits)

lemma branded_kept:
  assumes b: "b \<noteq> []" and u: "fst (generate_clean_url env w prompt) = Some u" "u \<noteq> []"
      and h: "fst (upload_image_directly env w u t1) = Some h" "h \<noteq> []"
      and g: "http_get env h" and o: "overlay env h b wt ts"
  shows "''images/branded_'' @ str_nat t2 @ ''.jpg''
          \<in> files (snd (generate_images env w (Some (prompt # rest)) (Some b) wt ts t1 t2))"
proof -
  let ?w2 = "snd (generate_clean_url env w prompt)"
  have "fst (upload_image_directly env ?w2 u t1) = fst (upload_image_directly env w u t1)"
    by (rule upload_directly_url_any_calls) (rule clean_url_files)
  with h(1) have h2: "fst (upload_image_directly env ?w2 u t1) = Some h" by simp
  show ?thesis
    using b u h2 h(2) g o
    by (simp add: generate_images_def split_beta Let_def truthy_def add_brand_text_def)
qed

lemma upload_directly_result:
  "http_get env u \<Longrightarrow> write_file env (''images/temp_'' @ str_nat t @ ''.jpg'') = Written \<Longrightarrow>
   fst (upload_image_directly env w u t)
     = upload_to_imgbb env
         (w\<lparr>files := insert (''images/temp_'' @ str_nat t @ ''.jpg'') (files w)\<rparr>)
         (''images/temp_'' @ str_nat t @ ''.jpg'')"
  by (simp add: upload_image_directly_def Let_def)

lemma upload_directly_removed:
  "http_get env u \<Longrightarrow> write_file env (''images/temp_'' @ str_nat t @ ''.jpg'') = Written \<Longrightarrow>
   remove_file env (''images/temp_'' @ str_nat t @ ''.jpg'') \<Longrightarrow>
   ''images/temp_'' @ str_nat t @ ''.jpg'' \<notin> files (snd (upload_image_directly env w u t))"
  by (simp add: upload_image_directly_def Let_def)

lemma upload_directly_left:
  "http_get env u \<Longrightarrow> write_file env (''images/temp_'' @ str_nat t @ ''.jpg'') = Written \<Longrightarrow>
   \<not> remove_file env (''images/temp_'' @ str_nat t @ ''.jpg'') \<Longrightarrow>
   ''images/temp_'' @ str_nat t @ ''.jpg'' \<in> files (snd (upload_image_directly env w u t))"
  by (simp add: upload_image_directly_def Let_def)

lemma upload_directly_other_files:
  "files (snd (upload_image_directly env w u t)) - {''images/temp_'' @ str_nat t @ ''.jpg''}
     = files w - {''images/temp_'' @ str_nat t @ ''.jpg''}"
  by (auto simp: upload_image_directly_def Let_def split: write_outcome.splits)

text \<open>
  C2: in \<open>generate_images\<close>, Replicate is called exactly when DALL-E returned no usable
  URL (\<open>None\<close> or the empty string); the clean URL is DALL-E's when it is usable and
  Replicate's otherwise; and \<open>generate_images\<close>, given a prompt, returns no URL
  exactly when both generators returned no usable URL.
\<close>

theorem secondary_iff_primary_unusable:
  "(Replicate_call prompt
      \<in> set (drop (length (calls w)) (calls (snd (generate_clean_url env w prompt))))
     \<longleftrightarrow> \<not> truthy (fst (generate_image_with_dalle env w prompt)))
   \<and> calls (snd (generate_images env w (Some (prompt # rest)) bt wt ts t1 t2))
       = calls (snd (generate_clean_url env w prompt))
   \<and> fst (generate_clean_url env w prompt)
       = (if truthy (fst (generate_image_with_dalle env w prompt))
          then fst (generate_image_with_dalle env w prompt)
          else fst (generate_image_with_replicate env w prompt))
   \<and> (fst (generate_images env w (Some (prompt # rest)) bt wt ts t1 t2) = []
        \<longleftrightarrow> \<not> truthy (fst (generate_image_with_dalle env w prompt))
             \<and> \<not> truthy (fst (generate_image_with_replicate env w prompt)))"
proof -
  have a: "Replicate_call prompt
             \<in> set (drop (length (calls w)) (calls (snd (generate_clean_url env w prompt))))
           \<longleftrightarrow> \<not> truthy (fst (generate_image_with_dalle env w prompt))"
    by (simp add: clean_url_calls)
  have d: "fst (generate_images env w (Some (prompt # rest)) bt wt ts t1 t2) = []
        \<longleftrightarrow> \<not> truthy (fst (generate_image_with_dalle env w prompt))
             \<and> \<not> truthy (fst (generate_image_with_replicate env w prompt))"
    by (simp add: generate_images_empty_iff clean_url_value)
  from a d show ?thesis
    by (simp add: generate_images_calls clean_url_value)
qed

theorem secondary_iff_primary_unusable_witness:
  "\<not> truthy (fst (generate_image_with_dalle
        \<lparr>dalle_generate = (\<lambda>p. Raises),
         replicate_run = (\<lambda>p. Returns [Some ''https://r.example/1.png'']),
         http_get = (\<lambda>u. False), write_file = (\<lambda>p. Written), remove_file = (\<lambda>p. True), imgbb_api_key = '''',
         imgbb_post = (\<lambda>p. Raises), overlay = (\<lambda>u b wt ts. False)\<rparr>
        \<lparr>files = {}, calls = []\<rparr> ''a skyline''))
   \<and> Replicate_call ''a skyline''
       \<in> set (drop (length (calls \<lparr>files = {}, calls = []\<rparr>))
            (calls (snd (generate_clean_url
        \<lparr>dalle_generate = (\<lambda>p. Raises),
         replicate_run = (\<lambda>p. Returns [Some ''https://r.example/1.png'']),
         http_get = (\<lambda>u. False), write_file = (\<lambda>p. Written), remove_file = (\<lambda>p. True), imgbb_api_key = '''',
         imgbb_post = (\<lambda>p. Raises), overlay = (\<lambda>u b wt ts. False)\<rparr>
        \<lparr>files = {}, calls = []\<rparr> ''a skyline''))))
   \<and> fst (generate_clean_url
        \<lparr>dalle_generate = (\<lambda>p. Raises),
         replicate_run = (\<lambda>p. Returns [Some ''https://r.example/1.png'']),
         http_get = (\<lambda>u. False), write_file = (\<lambda>p. Written), remove_file = (\<lambda>p. True), imgbb_api_key = '''',
         imgbb_post = (\<lambda>p. Raises), overlay = (\<lambda>u b wt ts. False)\<rparr>
        \<lparr>files = {}, calls = []\<rparr> ''a skyline'') = Some ''https://r.example/1.png''
   \<and> fst (generate_images
        \<lparr>dalle_generate = (\<lambda>p. Raises),
         replicate_run = (\<lambda>p. Returns [Some ''https://r.example/1.png'']),
         http_get = (\<lambda>u. False), write_file = (\<lambda>p. Written), remove_file = (\<lambda>p. True), imgbb_api_key = '''',
         imgbb_post = (\<lambda>p. Raises), overlay = (\<lambda>u b wt ts. False)\<rparr>
        \<lparr>files = {}, calls = []\<rparr> (Some [''a skyline'', ''a desert'']) None '''' 80 1 2) \<noteq> []"
proof -
  let ?env = "\<lparr>dalle_generate = (\<lambda>p. Raises),
         replicate_run = (\<lambda>p. Returns [Some ''https://r.example/1.png'']),
         http_get = (\<lambda>u. False), write_file = (\<lambda>p. Written), remove_file = (\<lambda>p. True), imgbb_api_key = '''',
         imgbb_post = (\<lambda>p. Raises), overlay = (\<lambda>u b wt ts. False)\<rparr>"
  let ?w = "\<lparr>files = {}, calls = []\<rparr>"
  have d: "fst (generate_image_with_dalle ?env ?w ''a skyline'') = None"
    by (simp add: generate_image_with_dalle_def Let_def)
  have r: "fst (generate_image_with_replicate ?env ?w ''a skyline'')
             = Some ''https://r.example/1.png''"
    by (simp add: generate_image_with_replicate_def truthy_def Let_def)
  have nd: "\<not> truthy (fst (generate_image_with_dalle ?env ?w ''a skyline''))"
    by (simp add: d truthy_def)
  have tr: "truthy (fst (generate_image_with_replicate ?env ?w ''a skyline''))"
    by (simp add: r truthy_def)
  note th = secondary_iff_primary_unusable
              [of "''a skyline''" ?w ?env "[''a desert'']" None "''''" 80 1 2]
  from th nd have a: "Replicate_call ''a skyline''
       \<in> set (drop (length (calls ?w)) (calls (snd (generate_clean_url ?env ?w ''a skyline''))))"
    by blast
  from th nd r have b: "fst (generate_clean_url ?env ?w ''a skyline'')
                          = Some ''https://r.example/1.png''"
    by simp
  from th tr have c: "fst (generate_images ?env ?w (Some [''a skyline'', ''a desert'']) None ''''
                             80 1 2) \<noteq> []"
    by blast
  from nd a b c show ?thesis by blast
qed

text \<open>
  C6: when at least one prompt was synthesized, the calls \<open>generate_images\<close> makes to
  the generators are all for the first prompt of the list, whatever follows it, and at
  least one is made; and \<open>generate_images\<close> never returns more than one URL.
\<close>

theorem only_first_prompt_sent:
  "set (map prompt_of
          (drop (length (calls w))
             (calls (snd (generate_images env w (Some (prompt # rest)) bt wt ts t1 t2)))))
     = {prompt}
   \<and> length (fst (generate_images env w prompts bt wt ts t1 t2)) \<le> 1"
  using generate_images_at_most_one [of env w prompts bt wt ts t1 t2]
  by (simp add: generate_images_calls clean_url_calls)

theorem only_first_prompt_sent_witness:
  "set (map prompt_of
          (drop (length (calls \<lparr>files = {}, calls = []\<rparr>))
             (calls (snd (generate_images
        \<lparr>dalle_generate = (\<lambda>p. Raises),
         replicate_run = (\<lambda>p. Returns [Some ''https://r.example/1.png'']),
         http_get = (\<lambda>u. False), write_file = (\<lambda>p. Written), remove_file = (\<lambda>p. True), imgbb_api_key = '''',
         imgbb_post = (\<lambda>p. Raises), overlay = (\<lambda>u b wt ts. False)\<rparr>
        \<lparr>files = {}, calls = []\<rparr> (Some [''a skyline'', ''a desert'', ''a souk''])
        None '''' 80 1 2)))))
     = {''a skyline''}
   \<and> length (fst (generate_images
        \<lparr>dalle_generate = (\<lambda>p. Raises),
         replicate_run = (\<lambda>p. Returns [Some ''https://r.example/1.png'']),
         http_get = (\<lambda>u. False), write_file = (\<lambda>p. Written), remove_file = (\<lambda>p. True), imgbb_api_key = '''',
         imgbb_post = (\<lambda>p. Raises), overlay = (\<lambda>u b wt ts. False)\<rparr>
        \<lparr>files = {}, calls = []\<rparr> (Some [''a skyline'', ''a desert'', ''a souk''])
        None '''' 80 1 2)) \<le> 1"
  using only_first_prompt_sent
          [of "\<lparr>files = {}, calls = []\<rparr>"
              "\<lparr>dalle_generate = (\<lambda>p. Raises),
                replicate_run = (\<lambda>p. Returns [Some ''https://r.example/1.png'']),
                http_get = (\<lambda>u. False), write_file = (\<lambda>p. Written), remove_file = (\<lambda>p. True), imgbb_api_key = '''',
                imgbb_post = (\<lambda>p. Raises), overlay = (\<lambda>u b wt ts. False)\<rparr>"
              "''a skyline''" "[''a desert'', ''a souk'']" None "''''" 80 1 2
              "Some [''a skyline'', ''a desert'', ''a souk'']"]
  by blast

text \<open>
  C5, as the code has it: a run in which every step succeeds, and a run in which the
  upload of the branded image fails, both end with the file \<open>add_brand_text\<close> saved
  still on disk.
\<close>

theorem branded_file_left_behind:
  "''images/branded_2.jpg''
     \<in> files (snd (generate_images
          \<lparr>dalle_generate = (\<lambda>p. Returns [Some ''https://d.example/1.png'']),
           replicate_run = (\<lambda>p. Raises),
           http_get = (\<lambda>u. True),
           write_file = (\<lambda>p. Written), remove_file = (\<lambda>p. True),
           imgbb_api_key = ''key'',
           imgbb_post = (\<lambda>p. Returns (200, Some (True, Some ''https://i.example/x.jpg''))),
           overlay = (\<lambda>u b wt ts. True)\<rparr>
          \<lparr>files = {}, calls = []\<rparr> (Some [''a skyline'']) (Some ''Brand'') '''' 80 1 2))
   \<and> ''images/branded_2.jpg''
     \<in> files (snd (generate_images
          \<lparr>dalle_generate = (\<lambda>p. Returns [Some ''https://d.example/1.png'']),
           replicate_run = (\<lambda>p. Raises),
           http_get = (\<lambda>u. True),
           write_file = (\<lambda>p. Written), remove_file = (\<lambda>p. True),
           imgbb_api_key = ''key'',
           imgbb_post = (\<lambda>p. if p = ''images/temp_1.jpg''
                               then Returns (200, Some (True, Some ''https://i.example/x.jpg''))
                               else Returns (500, None)),
           overlay = (\<lambda>u b wt ts. True)\<rparr>
          \<lparr>files = {}, calls = []\<rparr> (Some [''a skyline'']) (Some ''Brand'') '''' 80 1 2))"
  by (simp add: generate_images_def generate_clean_url_def generate_image_with_dalle_def
                upload_image_directly_def upload_to_imgbb_def add_brand_text_def truthy_def
                str_nat.simps Let_def)

text \<open>
  C5, amended: \<open>upload_image_directly\<close> deletes the file it wrote after the upload
  attempt, whatever the upload returns, whenever \<open>os.remove\<close> succeeds; a failure of
  the removal is swallowed and the file stays. No other local file is created or
  removed by that step. The file \<open>add_brand_text\<close> saves is not removed: whenever
  \<open>generate_images\<close> gets as far as a successful overlay, that file is on disk when it
  returns, whatever the upload of it does.
\<close>

theorem temp_file_removed_branded_file_kept:
  "(http_get env image_url
      \<longrightarrow> write_file env (''images/temp_'' @ str_nat t @ ''.jpg'') = Written
      \<longrightarrow> fst (upload_image_directly env w image_url t)
            = upload_to_imgbb env
                (w\<lparr>files := insert (''images/temp_'' @ str_nat t @ ''.jpg'') (files w)\<rparr>)
                (''images/temp_'' @ str_nat t @ ''.jpg'')
          \<and> (remove_file env (''images/temp_'' @ str_nat t @ ''.jpg'')
               \<longrightarrow> ''images/temp_'' @ str_nat t @ ''.jpg''
                     \<notin> files (snd (upload_image_directly env w image_url t)))
          \<and> (\<not> remove_file env (''images/temp_'' @ str_nat t @ ''.jpg'')
               \<longrightarrow> ''images/temp_'' @ str_nat t @ ''.jpg''
                     \<in> files (snd (upload_image_directly env w image_url t))))
   \<and> files (snd (upload_image_directly env w image_url t))
         - {''images/temp_'' @ str_nat t @ ''.jpg''}
       = files w - {''images/temp_'' @ str_nat t @ ''.jpg''}
   \<and> (b \<noteq> [] \<longrightarrow> fst (generate_clean_url env w prompt) = Some u \<longrightarrow> u \<noteq> []
      \<longrightarrow> fst (upload_image_directly env w u t1) = Some h \<longrightarrow> h \<noteq> []
      \<longrightarrow> http_get env h \<longrightarrow> overlay env h b wt ts
      \<longrightarrow> ''images/branded_'' @ str_nat t2 @ ''.jpg''
            \<in> files (snd (generate_images env w (Some (prompt # rest)) (Some b) wt ts t1 t2)))"
proof (intro conjI impI)
  assume g: "http_get env image_url"
    and wr: "write_file env (''images/temp_'' @ str_nat t @ ''.jpg'') = Written"
  from g wr show "fst (upload_image_directly env w image_url t)
            = upload_to_imgbb env
                (w\<lparr>files := insert (''images/temp_'' @ str_nat t @ ''.jpg'') (files w)\<rparr>)
                (''images/temp_'' @ str_nat t @ ''.jpg'')"
    by (rule upload_directly_result)
  {
    assume "remove_file env (''images/temp_'' @ str_nat t @ ''.jpg'')"
    with g wr show "''images/temp_'' @ str_nat t @ ''.jpg''
                     \<notin> files (snd (upload_image_directly env w image_url t))"
      by (rule upload_directly_removed)
  }
  {
    assume "\<not> remove_file env (''images/temp_'' @ str_nat t @ ''.jpg'')"
    with g wr show "''images/temp_'' @ str_nat t @ ''.jpg''
                     \<in> files (snd (upload_image_directly env w image_url t))"
      by (rule upload_directly_left)
  }
next
  show "files (snd (upload_image_directly env w image_url t))
         - {''images/temp_'' @ str_nat t @ ''.jpg''}
       = files w - {''images/temp_'' @ str_nat t @ ''.jpg''}"
    by (rule upload_directly_other_files)
next
  assume "b \<noteq> []" "fst (generate_clean_url env w prompt) = Some u" "u \<noteq> []"
    "fst (upload_image_directly env w u t1) = Some h" "h \<noteq> []"
    "http_get env h" "overlay env h b wt ts"
  then show "''images/branded_'' @ str_nat t2 @ ''.jpg''
            \<in> files (snd (generate_images env w (Some (prompt # rest)) (Some b) wt ts t1 t2))"
    by (rule branded_kept)
qed

theorem temp_file_removed_branded_file_kept_witness:
  "http_get
      \<lparr>dalle_generate = (\<lambda>p. Returns [Some ''https://d.example/1.png'']),
       replicate_run = (\<lambda>p. Raises), http_get = (\<lambda>u. True), write_file = (\<lambda>p. Written),
       remove_file = (\<lambda>p. True), imgbb_api_key = ''key'',
       imgbb_post = (\<lambda>p. if p = ''images/temp_1.jpg''
                           then Returns (200, Some (True, Some ''https://i.example/x.jpg''))
                           else Returns (500, None)),
       overlay = (\<lambda>u b wt ts. True)\<rparr> ''https://d.example/1.png''
   \<and> write_file
      \<lparr>dalle_generate = (\<lambda>p. Returns [Some ''https://d.example/1.png'']),
       replicate_run = (\<lambda>p. Raises), http_get = (\<lambda>u. True), write_file = (\<lambda>p. Written),
       remove_file = (\<lambda>p. True), imgbb_api_key = ''key'',
       imgbb_post = (\<lambda>p. if p = ''images/temp_1.jpg''
                           then Returns (200, Some (True, Some ''https://i.example/x.jpg''))
                           else Returns (500, None)),
       overlay = (\<lambda>u b wt ts. True)\<rparr> (''images/temp_'' @ str_nat 1 @ ''.jpg'') = Written
   \<and> fst (upload_image_directly
        \<lparr>dalle_generate = (\<lambda>p. Returns [Some ''https://d.example/1.png'']),
         replicate_run = (\<lambda>p. Raises), http_get = (\<lambda>u. True), write_file = (\<lambda>p. Written),
         remove_file = (\<lambda>p. True), imgbb_api_key = ''key'',
         imgbb_post = (\<lambda>p. if p = ''images/temp_1.jpg''
                             then Returns (200, Some (True, Some ''https://i.example/x.jpg''))
                             else Returns (500, None)),
         overlay = (\<lambda>u b wt ts. True)\<rparr>
        \<lparr>files = {''images/temp_1.jpg''}, calls = []\<rparr> ''https://d.example/1.png'' 1)
       = Some ''https://i.example/x.jpg''
   \<and> ''images/temp_'' @ str_nat 1 @ ''.jpg''
       \<notin> files (snd (upload_image_directly
        \<lparr>dalle_generate = (\<lambda>p. Returns [Some ''https://d.example/1.png'']),
         replicate_run = (\<lambda>p. Raises), http_get = (\<lambda>u. True), write_file = (\<lambda>p. Written),
         remove_file = (\<lambda>p. True), imgbb_api_key = ''key'',
         imgbb_post = (\<lambda>p. if p = ''images/temp_1.jpg''
                             then Returns (200, Some (True, Some ''https://i.example/x.jpg''))
                             else Returns (500, None)),
         overlay = (\<lambda>u b wt ts. True)\<rparr>
        \<lparr>files = {''images/temp_1.jpg''}, calls = []\<rparr> ''https://d.example/1.png'' 1))
   \<and> \<not> remove_file
        \<lparr>dalle_generate = (\<lambda>p. Returns [Some ''https://d.example/1.png'']),
         replicate_run = (\<lambda>p. Raises), http_get = (\<lambda>u. True), write_file = (\<lambda>p. Written),
         remove_file = (\<lambda>p. False), imgbb_api_key = ''key'',
         imgbb_post = (\<lambda>p. Returns (500, None)),
         overlay = (\<lambda>u b wt ts. True)\<rparr> (''images/temp_'' @ str_nat 1 @ ''.jpg'')
   \<and> ''images/temp_'' @ str_nat 1 @ ''.jpg''
       \<in> files (snd (upload_image_directly
        \<lparr>dalle_generate = (\<lambda>p. Returns [Some ''https://d.example/1.png'']),
         replicate_run = (\<lambda>p. Raises), http_get = (\<lambda>u. True), write_file = (\<lambda>p. Written),
         remove_file = (\<lambda>p. False), imgbb_api_key = ''key'',
         imgbb_post = (\<lambda>p. Returns (500, None)),
         overlay = (\<lambda>u b wt ts. True)\<rparr>
        \<lparr>files = {}, calls = []\<rparr> ''https://d.example/1.png'' 1))
   \<and> fst (generate_clean_url
        \<lparr>dalle_generate = (\<lambda>p. Returns [Some ''https://d.example/1.png'']),
         replicate_run = (\<lambda>p. Raises), http_get = (\<lambda>u. True), write_file = (\<lambda>p. Written),
         remove_file = (\<lambda>p. True), imgbb_api_key = ''key'',
         imgbb_post = (\<lambda>p. if p = ''images/temp_1.jpg''
                             then Returns (200, Some (True, Some ''https://i.example/x.jpg''))
                             else Returns (500, None)),
         overlay = (\<lambda>u b wt ts. True)\<rparr>
        \<lparr>files = {''images/temp_1.jpg''}, calls = []\<rparr> ''a skyline'')
       = Some ''https://d.example/1.png''
   \<and> ''images/branded_'' @ str_nat 2 @ ''.jpg''
       \<in> files (snd (generate_images
        \<lparr>dalle_generate = (\<lambda>p. Returns [Some ''https://d.example/1.png'']),
         replicate_run = (\<lambda>p. Raises), http_get = (\<lambda>u. True), write_file = (\<lambda>p. Written),
         remove_file = (\<lambda>p. True), imgbb_api_key = ''key'',
         imgbb_post = (\<lambda>p. if p = ''images/temp_1.jpg''
                             then Returns (200, Some (True, Some ''https://i.example/x.jpg''))
                             else Returns (500, None)),
         overlay = (\<lambda>u b wt ts. True)\<rparr>
        \<lparr>files = {''images/temp_1.jpg''}, calls = []\<rparr> (Some [''a skyline''])
        (Some ''Brand'') '''' 80 1 2))
   \<and> files (snd (upload_image_directly
        \<lparr>dalle_generate = (\<lambda>p. Returns [Some ''https://d.example/1.png'']),
         replicate_run = (\<lambda>p. Raises), http_get = (\<lambda>u. True), write_file = (\<lambda>p. Written),
         remove_file = (\<lambda>p. True), imgbb_api_key = ''key'',
         imgbb_post = (\<lambda>p. if p = ''images/temp_1.jpg''
                             then Returns (200, Some (True, Some ''https://i.example/x.jpg''))
                             else Returns (500, None)),
         overlay = (\<lambda>u b wt ts. True)\<rparr>
        \<lparr>files = {''images/temp_1.jpg''}, calls = []\<rparr> ''https://d.example/1.png'' 1))
       = {}"
proof -
  let ?env = "\<lparr>dalle_generate = (\<lambda>p. Returns [Some ''https://d.example/1.png'']),
         replicate_run = (\<lambda>p. Raises), http_get = (\<lambda>u. True), write_file = (\<lambda>p. Written),
         remove_file = (\<lambda>p. True), imgbb_api_key = ''key'',
         imgbb_post = (\<lambda>p. if p = ''images/temp_1.jpg''
                             then Returns (200, Some (True, Some ''https://i.example/x.jpg''))
                             else Returns (500, None)),
         overlay = (\<lambda>u b wt ts. True)\<rparr>"
  let ?bad = "\<lparr>dalle_generate = (\<lambda>p. Returns [Some ''https://d.example/1.png'']),
         replicate_run = (\<lambda>p. Raises), http_get = (\<lambda>u. True), write_file = (\<lambda>p. Written),
         remove_file = (\<lambda>p. False), imgbb_api_key = ''key'',
         imgbb_post = (\<lambda>p. Returns (500, None)),
         overlay = (\<lambda>u b wt ts. True)\<rparr>"
  let ?w = "\<lparr>files = {''images/temp_1.jpg''}, calls = []\<rparr>"
  let ?none = "\<lparr>files = {}, calls = []\<rparr>"
  let ?tp = "''images/temp_'' @ str_nat 1 @ ''.jpg''"
  have n: "?tp = ''images/temp_1.jpg''" by (simp add: str_nat.simps)
  have g1: "http_get ?env ''https://d.example/1.png''" by simp
  have g2: "write_file ?env ?tp = Written" by simp
  have g3: "remove_file ?env ?tp" by simp
  have b1: "http_get ?bad ''https://d.example/1.png''" by simp
  have b2: "write_file ?bad ?tp = Written" by simp
  have b3: "\<not> remove_file ?bad ?tp" by simp
  have h3: "''Brand'' \<noteq> []" by simp
  have h4: "fst (generate_clean_url ?env ?w ''a skyline'') = Some ''https://d.example/1.png''"
    by (simp add: generate_clean_url_def generate_image_with_dalle_def truthy_def Let_def)
  have h5: "''https://d.example/1.png'' \<noteq> []" by simp
  have h6: "fst (upload_image_directly ?env ?w ''https://d.example/1.png'' 1)
              = Some ''https://i.example/x.jpg''"
    by (simp add: upload_image_directly_def upload_to_imgbb_def str_nat.simps Let_def)
  have h7: "''https://i.example/x.jpg'' \<noteq> []" by simp
  have h8: "http_get ?env ''https://i.example/x.jpg''" by simp
  have h9: "overlay ?env ''https://i.example/x.jpg'' ''Brand'' '''' 80" by simp
  note th = temp_file_removed_branded_file_kept
              [of ?env "''https://d.example/1.png''" 1 ?w "''Brand''" "''a skyline''"
                  "''https://d.example/1.png''" 1 "''https://i.example/x.jpg''" "''''" 80 2 "[]"]
  note tb = temp_file_removed_branded_file_kept
              [of ?bad "''https://d.example/1.png''" 1 ?none]
  note th1 = th [THEN conjunct1, rule_format, OF g1 g2]
  note tb1 = tb [THEN conjunct1, rule_format, OF b1 b2]
  from th1 [THEN conjunct2, THEN conjunct1, rule_format, OF g3]
  have c1: "?tp \<notin> files (snd (upload_image_directly ?env ?w ''https://d.example/1.png'' 1))" .
  from tb1 [THEN conjunct2, THEN conjunct2, rule_format, OF b3]
  have c2: "?tp \<in> files (snd (upload_image_directly ?bad ?none ''https://d.example/1.png'' 1))" .
  from th [THEN conjunct2, THEN conjunct2, rule_format, OF h3 h4 h5 h6 h7 h8 h9]
  have c3: "''images/branded_'' @ str_nat 2 @ ''.jpg''
       \<in> files (snd (generate_images ?env ?w (Some [''a skyline'']) (Some ''Brand'') '''' 80 1 2))" .
  from th [THEN conjunct2, THEN conjunct1]
  have c0: "files (snd (upload_image_directly ?env ?w ''https://d.example/1.png'' 1)) - {?tp}
          = files ?w - {?tp}" .
  have "files ?w - {?tp} = {}" unfolding n by simp
  with c0 c1 have c4: "files (snd (upload_image_directly ?env ?w ''https://d.example/1.png'' 1)) = {}"
    by blast
  from g1 g2 h6 c1 b3 c2 h4 c3 c4 show ?thesis
    by (intro conjI) assumption+
qed

section \<open>Properties of the text generators\<close>

lemma py_strip_Nil: "py_strip [] = []"
  by (simp add: py_strip_def)

lemma generate_posts_blank:
  "py_strip topic = [] \<Longrightarrow>
   generate_posts json_loads resp topic = Inl (ValueError ''Topic cannot be empty'')"
  by (simp add: generate_posts_def)

lemma generate_posts_Inr_iff:
  "generate_posts json_loads resp topic = Inr result \<longleftrightarrow>
     py_strip topic \<noteq> []
     \<and> (\<exists>text. resp = Returns text \<and> py_strip text \<noteq> []
            \<and> json_loads (py_strip text) = Some result)
     \<and> py_in ''posts'' result = Inr True
     \<and> (\<exists>ps. py_getitem result ''posts'' = Inr ps \<and> py_len ps = Inr 3)"
proof (cases "topic = [] \<or> py_strip topic = []")
  case True
  then show ?thesis by (auto simp: generate_posts_def py_strip_Nil)
next
  case False
  note topic = False
  show ?thesis
  proof (cases resp)
    case Raises
    with topic show ?thesis by (simp add: generate_posts_def)
  next
    case (Returns reply)
    show ?thesis
    proof (cases "py_strip reply = []")
      case True
      with topic Returns show ?thesis by (simp add: generate_posts_def)
    next
      case False
      note content = False
      show ?thesis
      proof (cases "json_loads (py_strip reply)")
        case None
        with topic Returns content show ?thesis by (simp add: generate_posts_def)
      next
        case (Some r)
        with topic Returns content show ?thesis
          by (auto simp: generate_posts_def split: sum.splits bool.splits)
      qed
    qed
  qed
qed

text \<open>
  C1, as the code has it: a reply with three posts that carry one hashtag each passes
  the length check and is returned, though it is not the promised structure.
\<close>

theorem three_posts_one_hashtag_returned:
  "generate_posts
      (\<lambda>s. if s = ''REPLY''
            then Some (JObj [(''posts'',
                   JArr [JObj [(''title'', JStr ''A''), (''caption'', JStr ''B''),
                               (''hashtags'', JStr ''#uae'')],
                         JObj [(''title'', JStr ''C''), (''caption'', JStr ''D''),
                               (''hashtags'', JStr ''#uae'')],
                         JObj [(''title'', JStr ''E''), (''caption'', JStr ''F''),
                               (''hashtags'', JStr ''#uae'')]])])
            else None)
      (Returns ''REPLY'') ''UAE startups''
     = Inr (JObj [(''posts'',
                   JArr [JObj [(''title'', JStr ''A''), (''caption'', JStr ''B''),
                               (''hashtags'', JStr ''#uae'')],
                         JObj [(''title'', JStr ''C''), (''caption'', JStr ''D''),
                               (''hashtags'', JStr ''#uae'')],
                         JObj [(''title'', JStr ''E''), (''caption'', JStr ''F''),
                               (''hashtags'', JStr ''#uae'')]])])
   \<and> \<not> promised_three_posts
         (JObj [(''posts'',
                   JArr [JObj [(''title'', JStr ''A''), (''caption'', JStr ''B''),
                               (''hashtags'', JStr ''#uae'')],
                         JObj [(''title'', JStr ''C''), (''caption'', JStr ''D''),
                               (''hashtags'', JStr ''#uae'')],
                         JObj [(''title'', JStr ''E''), (''caption'', JStr ''F''),
                               (''hashtags'', JStr ''#uae'')]])])"
  by (simp add: generate_posts_def py_strip_def is_space_def py_in_def py_getitem_def py_len_def
                promised_three_posts_def promised_post_draft_def count_hashtags_def)

text \<open>
  C1, amended: \<open>generate_posts\<close> returns the decoded reply exactly when the topic is
  not blank, the reply is not empty, decodes, and has a \<open>posts\<close> entry of length 3;
  nothing else about the three entries is checked. Otherwise it raises: \<open>ValueError\<close>
  for a blank topic, for an empty reply, for an object without \<open>posts\<close> and for a list
  of another length, \<open>JSONDecodeError\<close> for a reply that does not decode, and the
  client's exception when the request fails.
\<close>

theorem generate_posts_checks_length_only:
  "(generate_posts json_loads resp topic = Inr result \<longleftrightarrow>
      py_strip topic \<noteq> []
      \<and> (\<exists>text. resp = Returns text \<and> py_strip text \<noteq> []
             \<and> json_loads (py_strip text) = Some result)
      \<and> py_in ''posts'' result = Inr True
      \<and> (\<exists>ps. py_getitem result ''posts'' = Inr ps \<and> py_len ps = Inr 3))
   \<and> (py_strip topic = [] \<longrightarrow>
        generate_posts json_loads resp topic = Inl (ValueError ''Topic cannot be empty''))
   \<and> (py_strip topic \<noteq> [] \<longrightarrow>
        generate_posts json_loads Raises topic = Inl APIError)
   \<and> (py_strip topic \<noteq> [] \<longrightarrow> py_strip text = [] \<longrightarrow>
        generate_posts json_loads (Returns text) topic
          = Inl (ValueError ''Empty response from OpenAI''))
   \<and> (py_strip topic \<noteq> [] \<longrightarrow> py_strip text \<noteq> [] \<longrightarrow> json_loads (py_strip text) = None \<longrightarrow>
        generate_posts json_loads (Returns text) topic = Inl JSONDecodeError)
   \<and> (py_strip topic \<noteq> [] \<longrightarrow> py_strip text \<noteq> [] \<longrightarrow>
        json_loads (py_strip text) = Some (JObj kvs) \<longrightarrow> ''posts'' \<notin> fst ` set kvs \<longrightarrow>
        generate_posts json_loads (Returns text) topic
          = Inl (ValueError ''Invalid response structure from OpenAI''))
   \<and> (py_strip topic \<noteq> [] \<longrightarrow> py_strip text \<noteq> [] \<longrightarrow>
        json_loads (py_strip text) = Some (JObj kvs) \<longrightarrow>
        map_of (rev kvs) ''posts'' = Some (JArr xs) \<longrightarrow> length xs \<noteq> 3 \<longrightarrow>
        generate_posts json_loads (Returns text) topic
          = Inl (ValueError ''Invalid response structure from OpenAI''))"
proof -
  have in_posts: "map_of (rev kvs) ''posts'' = Some (JArr xs) \<Longrightarrow> ''posts'' \<in> fst ` set kvs"
    using map_of_SomeD [of "rev kvs" "''posts''" "JArr xs"] by force
  show ?thesis
    using generate_posts_Inr_iff [of json_loads resp topic result] in_posts
    by (auto simp: generate_posts_def py_strip_Nil py_in_def py_getitem_def py_len_def)
qed

theorem generate_posts_checks_length_only_witness:
  "py_strip ''UAE startups'' \<noteq> []
   \<and> generate_posts
        (\<lambda>s. if s = ''GOOD''
              then Some (JObj [(''posts'',
                     JArr [JObj [(''title'', JStr ''A''), (''caption'', JStr ''B''),
                                 (''hashtags'', JStr ''#a #b #c #d #e'')],
                           JObj [(''title'', JStr ''C''), (''caption'', JStr ''D''),
                                 (''hashtags'', JStr ''#a #b #c #d #e'')],
                           JObj [(''title'', JStr ''E''), (''caption'', JStr ''F''),
                                 (''hashtags'', JStr ''#a #b #c #d #e'')]])])
              else if s = ''NOPOSTS'' then Some (JObj [])
              else if s = ''TWO'' then Some (JObj [(''posts'', JArr [JNull, JNull])])
              else None)
        (Returns ''  GOOD  '') ''UAE startups''
       = Inr (JObj [(''posts'',
                     JArr [JObj [(''title'', JStr ''A''), (''caption'', JStr ''B''),
                                 (''hashtags'', JStr ''#a #b #c #d #e'')],
                           JObj [(''title'', JStr ''C''), (''caption'', JStr ''D''),
                                 (''hashtags'', JStr ''#a #b #c #d #e'')],
                           JObj [(''title'', JStr ''E''), (''caption'', JStr ''F''),
                                 (''hashtags'', JStr ''#a #b #c #d #e'')]])])
   \<and> py_strip ''   '' = []
   \<and> generate_posts
        (\<lambda>s. if s = ''GOOD''
              then Some (JObj [(''posts'',
                     JArr [JObj [(''title'', JStr ''A''), (''caption'', JStr ''B''),
                                 (''hashtags'', JStr ''#a #b #c #d #e'')],
                           JObj [(''title'', JStr ''C''), (''caption'', JStr ''D''),
                                 (''hashtags'', JStr ''#a #b #c #d #e'')],
                           JObj [(''title'', JStr ''E''), (''caption'', JStr ''F''),
                                 (''hashtags'', JStr ''#a #b #c #d #e'')]])])
              else if s = ''NOPOSTS'' then Some (JObj [])
              else if s = ''TWO'' then Some (JObj [(''posts'', JArr [JNull, JNull])])
              else None)
        (Returns ''  GOOD  '') ''   ''
       = Inl (ValueError ''Topic cannot be empty'')
   \<and> generate_posts
        (\<lambda>s. if s = ''GOOD''
              then Some (JObj [(''posts'',
                     JArr [JObj [(''title'', JStr ''A''), (''caption'', JStr ''B''),
                                 (''hashtags'', JStr ''#a #b #c #d #e'')],
                           JObj [(''title'', JStr ''C''), (''caption'', JStr ''D''),
                                 (''hashtags'', JStr ''#a #b #c #d #e'')],
                           JObj [(''title'', JStr ''E''), (''caption'', JStr ''F''),
                                 (''hashtags'', JStr ''#a #b #c #d #e'')]])])
              else if s = ''NOPOSTS'' then Some (JObj [])
              else if s = ''TWO'' then Some (JObj [(''posts'', JArr [JNull, JNull])])
              else None)
        Raises ''UAE startups''
       = Inl APIError
   \<and> generate_posts
        (\<lambda>s. if s = ''GOOD''
              then Some (JObj [(''posts'',
                     JArr [JObj [(''title'', JStr ''A''), (''caption'', JStr ''B''),
                                 (''hashtags'', JStr ''#a #b #c #d #e'')],
                           JObj [(''title'', JStr ''C''), (''caption'', JStr ''D''),
                                 (''hashtags'', JStr ''#a #b #c #d #e'')],
                           JObj [(''title'', JStr ''E''), (''caption'', JStr ''F''),
                                 (''hashtags'', JStr ''#a #b #c #d #e'')]])])
              else if s = ''NOPOSTS'' then Some (JObj [])
              else if s = ''TWO'' then Some (JObj [(''posts'', JArr [JNull, JNull])])
              else None)
        (Returns ''   '') ''UAE startups''
       = Inl (ValueError ''Empty response from OpenAI'')
   \<and> generate_posts
        (\<lambda>s. if s = ''GOOD''
              then Some (JObj [(''posts'',
                     JArr [JObj [(''title'', JStr ''A''), (''caption'', JStr ''B''),
                                 (''hashtags'', JStr ''#a #b #c #d #e'')],
                           JObj [(''title'', JStr ''C''), (''caption'', JStr ''D''),
                                 (''hashtags'', JStr ''#a #b #c #d #e'')],
                           JObj [(''title'', JStr ''E''), (''caption'', JStr ''F''),
                                 (''hashtags'', JStr ''#a #b #c #d #e'')]])])
              else if s = ''NOPOSTS'' then Some (JObj [])
              else if s = ''TWO'' then Some (JObj [(''posts'', JArr [JNull, JNull])])
              else None)
        (Returns ''Sorry, I cannot'') ''UAE startups''
       = Inl JSONDecodeError
   \<and> generate_posts
        (\<lambda>s. if s = ''GOOD''
              then Some (JObj [(''posts'',
                     JArr [JObj [(''title'', JStr ''A''), (''caption'', JStr ''B''),
                                 (''hashtags'', JStr ''#a #b #c #d #e'')],
                           JObj [(''title'', JStr ''C''), (''caption'', JStr ''D''),
                                 (''hashtags'', JStr ''#a #b #c #d #e'')],
                           JObj [(''title'', JStr ''E''), (''caption'', JStr ''F''),
                                 (''hashtags'', JStr ''#a #b #c #d #e'')]])])
              else if s = ''NOPOSTS'' then Some (JObj [])
              else if s = ''TWO'' then Some (JObj [(''posts'', JArr [JNull, JNull])])
              else None)
        (Returns ''NOPOSTS'') ''UAE startups''
       = Inl (ValueError ''Invalid response structure from OpenAI'')
   \<and> generate_posts
        (\<lambda>s. if s = ''GOOD''
              then Some (JObj [(''posts'',
                     JArr [JObj [(''title'', JStr ''A''), (''caption'', JStr ''B''),
                                 (''hashtags'', JStr ''#a #b #c #d #e'')],
                           JObj [(''title'', JStr ''C''), (''caption'', JStr ''D''),
                                 (''hashtags'', JStr ''#a #b #c #d #e'')],
                           JObj [(''title'', JStr ''E''), (''caption'', JStr ''F''),
                                 (''hashtags'', JStr ''#a #b #c #d #e'')]])])
              else if s = ''NOPOSTS'' then Some (JObj [])
              else if s = ''TWO'' then Some (JObj [(''posts'', JArr [JNull, JNull])])
              else None)
        (Returns ''TWO'') ''UAE startups''
       = Inl (ValueError ''Invalid response structure from OpenAI'')"
proof -
  let ?good = "JObj [(''posts'',
                     JArr [JObj [(''title'', JStr ''A''), (''caption'', JStr ''B''),
                                 (''hashtags'', JStr ''#a #b #c #d #e'')],
                           JObj [(''title'', JStr ''C''), (''caption'', JStr ''D''),
                                 (''hashtags'', JStr ''#a #b #c #d #e'')],
                           JObj [(''title'', JStr ''E''), (''caption'', JStr ''F''),
                                 (''hashtags'', JStr ''#a #b #c #d #e'')]])]"
  let ?loads = "\<lambda>s. if s = ''GOOD'' then Some ?good
              else if s = ''NOPOSTS'' then Some (JObj [])
              else if s = ''TWO'' then Some (JObj [(''posts'', JArr [JNull, JNull])])
              else None"
  have t: "py_strip ''UAE startups'' \<noteq> []"
    by (simp add: py_strip_def is_space_def)
  have b: "py_strip ''   '' = []"
    by (simp add: py_strip_def is_space_def)
  have g: "py_strip ''  GOOD  '' = ''GOOD''"
    by (simp add: py_strip_def is_space_def)
  have s: "py_strip ''Sorry, I cannot'' = ''Sorry, I cannot''"
    by (simp add: py_strip_def is_space_def)
  have n: "py_strip ''NOPOSTS'' = ''NOPOSTS''"
    by (simp add: py_strip_def is_space_def)
  have w: "py_strip ''TWO'' = ''TWO''"
    by (simp add: py_strip_def is_space_def)
  have g1: "\<exists>reply. Returns ''  GOOD  '' = Returns reply \<and> py_strip reply \<noteq> []
              \<and> ?loads (py_strip reply) = Some ?good"
    by (simp add: g)
  have g2: "py_in ''posts'' ?good = Inr True"
    by (simp add: py_in_def)
  have g3: "\<exists>ps. py_getitem ?good ''posts'' = Inr ps \<and> py_len ps = Inr 3"
    by (simp add: py_getitem_def py_len_def)
  from generate_posts_checks_length_only
         [of ?loads "Returns ''  GOOD  ''" "''UAE startups''" ?good] t g1 g2 g3
  have c1: "generate_posts ?loads (Returns ''  GOOD  '') ''UAE startups'' = Inr ?good"
    by blast
  from generate_posts_checks_length_only [of ?loads "Returns ''  GOOD  ''" "''   ''"] b
  have c2: "generate_posts ?loads (Returns ''  GOOD  '') ''   ''
              = Inl (ValueError ''Topic cannot be empty'')"
    by blast
  from generate_posts_checks_length_only [of ?loads _ "''UAE startups''"] t
  have c3: "generate_posts ?loads Raises ''UAE startups'' = Inl APIError"
    by blast
  from generate_posts_checks_length_only [of ?loads _ "''UAE startups''" _ "''   ''"] t b
  have c4: "generate_posts ?loads (Returns ''   '') ''UAE startups''
              = Inl (ValueError ''Empty response from OpenAI'')"
    by blast
  have s1: "py_strip ''Sorry, I cannot'' \<noteq> []" by (simp add: s)
  have s2: "?loads (py_strip ''Sorry, I cannot'') = None" by (simp add: s)
  from generate_posts_checks_length_only
         [of ?loads _ "''UAE startups''" _ "''Sorry, I cannot''"] t s1 s2
  have c5: "generate_posts ?loads (Returns ''Sorry, I cannot'') ''UAE startups''
              = Inl JSONDecodeError"
    by blast
  have n1: "py_strip ''NOPOSTS'' \<noteq> []" by (simp add: n)
  have n2: "?loads (py_strip ''NOPOSTS'') = Some (JObj [])" by (simp add: n)
  have n3: "''posts'' \<notin> fst ` set ([] :: (string \<times> json) list)" by simp
  from generate_posts_checks_length_only
         [of ?loads _ "''UAE startups''" _ "''NOPOSTS''" "[]"] t n1 n2 n3
  have c6: "generate_posts ?loads (Returns ''NOPOSTS'') ''UAE startups''
              = Inl (ValueError ''Invalid response structure from OpenAI'')"
    by blast
  have w1: "py_strip ''TWO'' \<noteq> []" by (simp add: w)
  have w2: "?loads (py_strip ''TWO'') = Some (JObj [(''posts'', JArr [JNull, JNull])])"
    by (simp add: w)
  have w3: "map_of (rev [(''posts'', JArr [JNull, JNull])]) ''posts''
              = Some (JArr [JNull, JNull])"
    by simp
  have w4: "length [JNull, JNull] \<noteq> 3" by simp
  from generate_posts_checks_length_only
         [of ?loads _ "''UAE startups''" _ "''TWO''" "[(''posts'', JArr [JNull, JNull])]"
             "[JNull, JNull]"] t w1 w2 w3 w4
  have c7: "generate_posts ?loads (Returns ''TWO'') ''UAE startups''
              = Inl (ValueError ''Invalid response structure from OpenAI'')"
    by blast
  from t c1 b c2 c3 c4 c5 c6 c7 show ?thesis by blast
qed


subsection \<open>String replacement\<close>

lemma replace_all_keeps_prefix:
  assumes "old = [] \<or> hd old \<notin> set t"
  shows "prefix t s \<Longrightarrow> prefix t (replace_all old new s)"
  using assms
proof (induction t arbitrary: s)
  case Nil
  then show ?case by simp
next
  case (Cons a t)
  from Cons.prems(1) obtain s' where s: "s = a # s'" and p: "prefix t s'"
    by (cases s) auto
  have no: "\<not> (old \<noteq> [] \<and> prefix old (a # s'))"
  proof
    assume m: "old \<noteq> [] \<and> prefix old (a # s')"
    then obtain x xs where o: "old = x # xs" by (cases old) auto
    with m have "x = a" by simp
    with o Cons.prems(2) show False by simp
  qed
  have "old = [] \<or> hd old \<notin> set t"
    using Cons.prems(2) by auto
  with Cons.IH p have "prefix t (replace_all old new s')" by blast
  moreover from no have "replace_all old new (a # s') = a # replace_all old new s'"
    by auto
  ultimately show ?case using s by simp
qed

lemma replace_all_introduces:
  assumes "old \<noteq> []"
  shows "sublist old s \<Longrightarrow> sublist new (replace_all old new s)"
proof (induction s)
  case Nil
  with assms show ?case by simp
next
  case (Cons c cs)
  show ?case
  proof (cases "prefix old (c # cs)")
    case True
    with assms show ?thesis by simp
  next
    case False
    with Cons.prems have "sublist old cs"
      by (simp add: sublist_Cons_right)
    with Cons.IH have "sublist new (replace_all old new cs)" by blast
    then have "sublist new (c # replace_all old new cs)"
      by (simp add: sublist_Cons_right)
    with False show ?thesis by simp
  qed
qed

lemma replace_all_keeps_sublist:
  assumes inside: "old = [] \<or> hd old \<notin> set (tl t)"
    and apart: "\<And>rest. sublist t (old @ rest) \<Longrightarrow> sublist t rest"
  shows "sublist t s \<Longrightarrow> sublist t (replace_all old new s)"
proof (induction "length s" arbitrary: s rule: less_induct)
  case less
  show ?case
  proof (cases s)
    case Nil
    with less.prems show ?thesis by simp
  next
    case (Cons c cs)
    show ?thesis
    proof (cases "old \<noteq> [] \<and> prefix old (c # cs)")
      case True
      let ?rest = "drop (length old) (c # cs)"
      from True have split: "c # cs = old @ ?rest"
        by (auto simp: prefix_def)
      from True have shorter: "length ?rest < length s"
        using Cons by (cases old) auto
      from less.prems Cons split have "sublist t (old @ ?rest)" by simp
      then have "sublist t ?rest" by (rule apart)
      with less.hyps shorter have "sublist t (replace_all old new ?rest)" by blast
      then have "sublist t (new @ replace_all old new ?rest)"
        by (auto simp: sublist_append)
      with True Cons show ?thesis by simp
    next
      case False
      then have step: "replace_all old new (c # cs) = c # replace_all old new cs"
        by auto
      from less.prems Cons consider "prefix t (c # cs)" | "sublist t cs"
        by (auto simp: sublist_Cons_right)
      then have "sublist t (c # replace_all old new cs)"
      proof cases
        case 1
        show ?thesis
        proof (cases t)
          case Nil
          then show ?thesis by simp
        next
          case (Cons a t')
          with 1 have "a = c" "prefix t' cs" by simp_all
          moreover have "old = [] \<or> hd old \<notin> set t'"
            using inside Cons by simp
          ultimately have "prefix t' (replace_all old new cs)"
            using replace_all_keeps_prefix by blast
          with Cons \<open>a = c\<close> have "prefix t (c # replace_all old new cs)" by simp
          then show ?thesis by (simp add: sublist_Cons_right)
        qed
      next
        case 2
        with less.hyps Cons have "sublist t (replace_all old new cs)" by simp
        then show ?thesis by (simp add: sublist_Cons_right)
      qed
      with step Cons show ?thesis by simp
    qed
  qed
qed

text \<open>
  Two strings that begin with the same character, hold it nowhere else, and are no
  prefix of each other cannot overlap: replacing one keeps the occurrences of the other.
\<close>

lemma replace_all_keeps_placeholder:
  assumes o: "old = a # old'" and t: "t = a # t'"
    and ao: "a \<notin> set old'" and at: "a \<notin> set t'"
    and npo: "\<not> prefix t old" and npt: "\<not> prefix old t"
  shows "sublist t s \<Longrightarrow> sublist t (replace_all old new s)"
proof (rule replace_all_keeps_sublist)
  show "old = [] \<or> hd old \<notin> set (tl t)"
    using o t at by simp
next
  fix rest
  assume "sublist t (old @ rest)"
  then consider "sublist t old" | "sublist t rest"
    | xs1 xs2 where "t = xs1 @ xs2" "suffix xs1 old" "prefix xs2 rest"
    by (auto simp: sublist_append)
  then show "sublist t rest"
  proof cases
    case 1
    then have "prefix t old \<or> sublist t old'"
      using o by (simp add: sublist_Cons_right)
    with npo have "sublist t old'" by blast
    then have "set t \<subseteq> set old'"
      by (auto simp: sublist_def)
    with t ao show ?thesis by auto
  next
    case 2
    then show ?thesis .
  next
    case 3
    show ?thesis
    proof (cases xs1)
      case Nil
      with 3 show ?thesis by auto
    next
      case (Cons b ys)
      with 3(1) t have b: "b = a" by simp
      from 3(2) obtain zs where z: "old = zs @ xs1"
        by (auto simp: suffix_def)
      show ?thesis
      proof (cases zs)
        case Nil
        with z 3(1) have "prefix old t" by simp
        with npt show ?thesis by blast
      next
        case (Cons d ds)
        with z o have "old' = ds @ xs1" by simp
        with \<open>xs1 = b # ys\<close> b have "a \<in> set old'" by simp
        with ao show ?thesis by blast
      qed
    qed
  qed
qed

text \<open>
  A text without the first and the last character of \<open>old\<close>, and not a part of what is
  between them, cannot overlap an occurrence of \<open>old\<close>.
\<close>

lemma replace_all_keeps_text:
  assumes o: "old = a # mid @ [z]"
    and a: "a \<notin> set t" and z: "z \<notin> set t"
    and mid: "\<not> sublist t mid"
  shows "sublist t s \<Longrightarrow> sublist t (replace_all old new s)"
proof (rule replace_all_keeps_sublist)
  have "set (tl t) \<subseteq> set t" by (cases t) auto
  then show "old = [] \<or> hd old \<notin> set (tl t)"
    using o a by auto
next
  fix rest
  from mid have ne: "t \<noteq> []" by auto
  assume "sublist t (old @ rest)"
  then consider "sublist t old" | "sublist t rest"
    | xs1 xs2 where "t = xs1 @ xs2" "suffix xs1 old" "prefix xs2 rest"
    by (auto simp: sublist_append)
  then show "sublist t rest"
  proof cases
    case 1
    then have "prefix t (a # mid @ [z]) \<or> sublist t (mid @ [z])"
      using o by (simp add: sublist_Cons_right)
    moreover have "\<not> prefix t (a # mid @ [z])"
      using ne a by (cases t) auto
    ultimately have "sublist t (mid @ [z])" by blast
    then have "suffix t (mid @ [z]) \<or> sublist t mid"
      by (simp only: sublist_snoc)
    with mid have "suffix t (mid @ [z])" by blast
    then have "t = [] \<or> (\<exists>zs. t = zs @ [z] \<and> suffix zs mid)"
      by (simp only: suffix_snoc)
    with ne obtain zs where "t = zs @ [z]" by blast
    with z show ?thesis by simp
  next
    case 2
    then show ?thesis .
  next
    case 3
    show ?thesis
    proof (cases "xs1 = []")
      case True
      with 3 show ?thesis by auto
    next
      case False
      from 3(2) o have "suffix xs1 ((a # mid) @ [z])" by simp
      then have "xs1 = [] \<or> (\<exists>zs. xs1 = zs @ [z] \<and> suffix zs (a # mid))"
        by (simp only: suffix_snoc)
      with False obtain zs where "xs1 = zs @ [z]" by blast
      with 3(1) z show ?thesis by simp
    qed
  qed
qed

subsection \<open>The image prompts\<close>

lemma template_prompt_suffix:
  "suffix template_suffix (template_prompt t title caption)"
  by (simp add: template_prompt_def suffix_def)

lemma template_prompt_caption:
  assumes "sublist ''[CAPTION]'' t"
  shows "sublist (take 100 caption) (template_prompt t title caption)"
proof -
  have "sublist ''[CAPTION]'' (replace_all ''[TITLE]'' title t)"
    by (rule replace_all_keeps_placeholder
               [of "''[TITLE]''" "CHR ''[''" "''TITLE]''" "''[CAPTION]''" "''CAPTION]''"])
       (simp_all add: assms)
  then have "sublist (take 100 caption)
               (replace_all ''[CAPTION]'' (take 100 caption) (replace_all ''[TITLE]'' title t))"
    by (intro replace_all_introduces) simp_all
  then show ?thesis
    by (auto simp: template_prompt_def py_replace_def sublist_append)
qed

lemma template_prompt_title:
  assumes "sublist ''[TITLE]'' t"
    and "CHR ''['' \<notin> set title" and "CHR '']'' \<notin> set title"
    and "\<not> sublist title ''CAPTION''"
  shows "sublist title (template_prompt t title caption)"
proof -
  have "sublist title (replace_all ''[TITLE]'' title t)"
    using assms(1) by (intro replace_all_introduces) simp_all
  then have "sublist title
               (replace_all ''[CAPTION]'' (take 100 caption) (replace_all ''[TITLE]'' title t))"
    using assms(2-4)
    by (intro replace_all_keeps_text [of "''[CAPTION]''" "CHR ''[''" "''CAPTION''" "CHR '']''"])
       simp_all
  then show ?thesis
    by (auto simp: template_prompt_def py_replace_def sublist_append)
qed

lemma py_strip_core:
  assumes "\<forall>c \<in> set ws1. is_space c" "\<forall>c \<in> set ws2. is_space c"
    and "\<not> is_space a" "\<not> is_space z"
  shows "py_strip (ws1 @ a # m @ z # ws2) = a # m @ [z]"
proof -
  have "dropWhile is_space (ws1 @ a # m @ z # ws2) = a # m @ z # ws2"
    using assms(1,3) by (simp add: dropWhile_append3)
  moreover have "dropWhile is_space (rev (a # m @ z # ws2)) = z # rev m @ [a]"
    using assms(2,4) by (simp add: dropWhile_append3)
  ultimately show ?thesis
    by (simp add: py_strip_def)
qed

lemma fallback_prompt_eq:
  "fallback_prompt title caption =
     ''Professional commercial photograph.''
     @ ''\<newline>Subject: '' @ title
     @ ''\<newline>Context: '' @ take 100 caption
     @ ''\<newline>Style: high-quality product photography, studio lighting''
     @ ''\<newline>Mood: professional, commercial, aspirational''
     @ fallback_suffix"
proof -
  let ?m = "''rofessional commercial photograph.''
     @ ''\<newline>Subject: '' @ title
     @ ''\<newline>Context: '' @ take 100 caption
     @ ''\<newline>Style: high-quality product photography, studio lighting''
     @ ''\<newline>Mood: professional, commercial, aspirational''
     @ ''\<newline>CRITICAL: Absolutely NO text, NO words, NO letters, NO signs, NO labels anywhere in the image.''
     @ ''\<newline>Clean photography without any visible text or writing.''
     @ ''\<newline>Aspect ratio: 1:1 (square)''"
  have "fallback_prompt title caption
          = py_strip (''\<newline>'' @ CHR ''P'' # ?m @ CHR ''.'' # ''\<newline>                '')"
    by (simp add: fallback_prompt_def)
  also have "\<dots> = CHR ''P'' # ?m @ [CHR ''.'']"
    by (rule py_strip_core) (simp_all add: is_space_def)
  finally show ?thesis
    by (simp add: fallback_suffix_def)
qed

lemma fallback_prompt_suffix:
  "suffix fallback_suffix (fallback_prompt title caption)"
  unfolding fallback_prompt_eq suffix_def by (metis append.assoc)

lemma loop_template:
  "truthy tmpl \<Longrightarrow>
   image_prompts_loop chat tmpl i ps =
     map (\<lambda>p. template_prompt (the tmpl) (get_or_empty p ''title'') (get_or_empty p ''caption''))
         (filter (\<lambda>p. get_or_empty p ''title'' \<noteq> []) ps)"
  by (induction ps arbitrary: i) (simp_all add: Let_def)

lemma loop_no_template:
  "\<not> truthy tmpl \<Longrightarrow> q \<in> set (image_prompts_loop chat tmpl i ps) \<Longrightarrow>
   (\<exists>content. q = py_strip content @ smart_suffix)
   \<or> (\<exists>p \<in> set ps. get_or_empty p ''title'' \<noteq> []
         \<and> q = fallback_prompt (get_or_empty p ''title'') (get_or_empty p ''caption''))"
proof (induction ps arbitrary: i)
  case Nil
  then show ?case by simp
next
  case (Cons p ps)
  show ?case
  proof (cases "get_or_empty p ''title'' = []")
    case True
    with Cons.prems have "q \<in> set (image_prompts_loop chat tmpl (Suc i) ps)"
      by (simp add: Let_def)
    with Cons.IH Cons.prems(1) show ?thesis by auto
  next
    case False
    with Cons.prems consider
        "q = (case chat i (ai_prompt (get_or_empty p ''title'') (get_or_empty p ''caption'')) of
                Some content \<Rightarrow> py_strip content @ smart_suffix
              | None \<Rightarrow> fallback_prompt (get_or_empty p ''title'') (get_or_empty p ''caption''))"
      | "q \<in> set (image_prompts_loop chat tmpl (Suc i) ps)"
      by (auto simp: Let_def)
    then show ?thesis
    proof cases
      case 1
      with False show ?thesis by (auto split: option.splits)
    next
      case 2
      with Cons.IH Cons.prems(1) show ?thesis by auto
    qed
  qed
qed

text \<open>
  C3, as the code has it: a title that is itself the text \<open>[CAPTION]\<close> is rewritten by
  the second substitution and is not in the prompt; and the prompts of the remote-model
  path and of the fallback path do not end with the text the template path appends, nor
  the template path's prompt with theirs.
\<close>

theorem title_lost_and_suffixes_differ:
  "generate_image_prompts (\<lambda>i request. None)
      (Some [[''title'' \<mapsto> ''[CAPTION]'', ''caption'' \<mapsto> ''c'']]) (Some ''[TITLE] [CAPTION]'')
     = [''c c'' @ template_suffix]
   \<and> \<not> sublist ''[CAPTION]'' (''c c'' @ template_suffix)
   \<and> generate_image_prompts (\<lambda>i request. Some ''A photo'')
        (Some [[''title'' \<mapsto> ''Dubai'', ''caption'' \<mapsto> ''Tech'']]) None
       = [''A photo'' @ smart_suffix]
   \<and> \<not> suffix template_suffix (''A photo'' @ smart_suffix)
   \<and> generate_image_prompts (\<lambda>i request. None)
        (Some [[''title'' \<mapsto> ''Dubai'', ''caption'' \<mapsto> ''Tech'']]) None
       = [fallback_prompt ''Dubai'' ''Tech'']
   \<and> \<not> suffix template_suffix (fallback_prompt ''Dubai'' ''Tech'')
   \<and> \<not> suffix smart_suffix (fallback_prompt ''Dubai'' ''Tech'')
   \<and> \<not> suffix smart_suffix (''c c'' @ template_suffix)
   \<and> \<not> suffix fallback_suffix (''c c'' @ template_suffix)
   \<and> \<not> suffix fallback_suffix (''A photo'' @ smart_suffix)"
proof -
  have a: "generate_image_prompts (\<lambda>i request. None)
      (Some [[''title'' \<mapsto> ''[CAPTION]'', ''caption'' \<mapsto> ''c'']]) (Some ''[TITLE] [CAPTION]'')
     = [''c c'' @ template_suffix]"
    by (simp add: generate_image_prompts_def get_or_empty_def truthy_def template_prompt_def
                  py_replace_def Let_def)
  have b: "\<not> sublist ''[CAPTION]'' (''c c'' @ template_suffix)"
    by code_simp
  have c: "generate_image_prompts (\<lambda>i request. Some ''A photo'')
        (Some [[''title'' \<mapsto> ''Dubai'', ''caption'' \<mapsto> ''Tech'']]) None
       = [''A photo'' @ smart_suffix]"
    by (simp add: generate_image_prompts_def get_or_empty_def truthy_def py_strip_def
                  is_space_def Let_def)
  have d: "\<not> suffix template_suffix (''A photo'' @ smart_suffix)"
    by code_simp
  have e: "generate_image_prompts (\<lambda>i request. None)
        (Some [[''title'' \<mapsto> ''Dubai'', ''caption'' \<mapsto> ''Tech'']]) None
       = [fallback_prompt ''Dubai'' ''Tech'']"
    by (simp add: generate_image_prompts_def get_or_empty_def truthy_def Let_def)
  have f: "\<not> suffix template_suffix (fallback_prompt ''Dubai'' ''Tech'')"
    by code_simp
  have g: "\<not> suffix smart_suffix (fallback_prompt ''Dubai'' ''Tech'')"
    by code_simp
  have h: "\<not> suffix smart_suffix (''c c'' @ template_suffix)"
    by code_simp
  have i: "\<not> suffix fallback_suffix (''c c'' @ template_suffix)"
    by code_simp
  have j: "\<not> suffix fallback_suffix (''A photo'' @ smart_suffix)"
    by code_simp
  from a b c d e f g h i j show ?thesis by blast
qed

text \<open>
  C3, amended. With a template, the prompts are, for the posts that have a title and in
  their order, the template with every \<open>[TITLE]\<close> replaced by the title and then every
  \<open>[CAPTION]\<close> replaced by the first 100 characters of the caption, followed by the
  text of the template path. Such a prompt holds the cut caption when the template
  holds \<open>[CAPTION]\<close>, and the title when the template holds \<open>[TITLE]\<close> and the title
  has no square bracket and is not a part of the word \<open>CAPTION\<close>. Every prompt ends
  with the text of its own path: the template path's with a template; without one,
  the remote-model path's or the fallback's. The three texts all forbid text in the
  image and fix the square aspect ratio.
\<close>

theorem image_prompts_by_path:
  "(truthy tmpl \<longrightarrow>
      generate_image_prompts chat (Some ps) tmpl
        = map (\<lambda>p. py_replace (py_replace (the tmpl) ''[TITLE]'' (get_or_empty p ''title''))
                               ''[CAPTION]'' (take 100 (get_or_empty p ''caption''))
                    @ template_suffix)
              (filter (\<lambda>p. get_or_empty p ''title'' \<noteq> []) ps))
   \<and> (sublist ''[CAPTION]'' t \<longrightarrow>
        sublist (take 100 caption) (template_prompt t title caption))
   \<and> (sublist ''[TITLE]'' t \<longrightarrow> CHR ''['' \<notin> set title \<longrightarrow> CHR '']'' \<notin> set title
        \<longrightarrow> \<not> sublist title ''CAPTION''
        \<longrightarrow> sublist title (template_prompt t title caption))
   \<and> (\<forall>q \<in> set (generate_image_prompts chat posts tmpl).
         if truthy tmpl then suffix template_suffix q
         else suffix smart_suffix q \<or> suffix fallback_suffix q)
   \<and> sublist ''NO text, NO words, NO letters, NO signs, NO labels'' template_suffix
   \<and> sublist ''NO text, NO words, NO letters, NO signs, NO labels'' smart_suffix
   \<and> sublist ''NO text, NO words, NO letters, NO signs, NO labels'' fallback_suffix
   \<and> sublist ''Aspect ratio: 1:1 (square).'' template_suffix
   \<and> sublist ''Aspect ratio: 1:1 (square).'' smart_suffix
   \<and> sublist ''Aspect ratio: 1:1 (square).'' fallback_suffix"
proof -
  have a: "truthy tmpl \<longrightarrow>
      generate_image_prompts chat (Some ps) tmpl
        = map (\<lambda>p. py_replace (py_replace (the tmpl) ''[TITLE]'' (get_or_empty p ''title''))
                               ''[CAPTION]'' (take 100 (get_or_empty p ''caption''))
                    @ template_suffix)
              (filter (\<lambda>p. get_or_empty p ''title'' \<noteq> []) ps)"
    by (simp add: generate_image_prompts_def loop_template template_prompt_def)
  have d: "\<forall>q \<in> set (generate_image_prompts chat posts tmpl).
         if truthy tmpl then suffix template_suffix q
         else suffix smart_suffix q \<or> suffix fallback_suffix q"
  proof
    fix q
    assume q: "q \<in> set (generate_image_prompts chat posts tmpl)"
    then obtain qs where posts: "posts = Some qs"
      by (cases posts) (auto simp: generate_image_prompts_def)
    with q have q': "q \<in> set (image_prompts_loop chat tmpl 0 qs)"
      by (simp add: generate_image_prompts_def)
    show "if truthy tmpl then suffix template_suffix q
          else suffix smart_suffix q \<or> suffix fallback_suffix q"
    proof (cases "truthy tmpl")
      case True
      with q' show ?thesis
        by (auto simp: loop_template template_prompt_suffix)
    next
      case False
      from loop_no_template [OF False q'] consider
          (smart) content where "q = py_strip content @ smart_suffix"
        | (fallback) p where
            "q = fallback_prompt (get_or_empty p ''title'') (get_or_empty p ''caption'')"
        by blast
      then have "suffix smart_suffix q \<or> suffix fallback_suffix q"
      proof cases
        case smart
        then show ?thesis by (simp add: suffix_def)
      next
        case fallback
        then show ?thesis by (simp add: fallback_prompt_suffix)
      qed
      with False show ?thesis by simp
    qed
  qed
  have e: "sublist ''NO text, NO words, NO letters, NO signs, NO labels'' template_suffix"
    "sublist ''NO text, NO words, NO letters, NO signs, NO labels'' smart_suffix"
    "sublist ''NO text, NO words, NO letters, NO signs, NO labels'' fallback_suffix"
    "sublist ''Aspect ratio: 1:1 (square).'' template_suffix"
    "sublist ''Aspect ratio: 1:1 (square).'' smart_suffix"
    "sublist ''Aspect ratio: 1:1 (square).'' fallback_suffix"
    by code_simp+
  from a d e template_prompt_caption [of t caption title]
       template_prompt_title [of t title caption]
  show ?thesis by blast
qed

theorem image_prompts_by_path_witness:
  "truthy (Some ''Photo of [TITLE]: [CAPTION]'')
   \<and> generate_image_prompts (\<lambda>i request. None)
        (Some [[''title'' \<mapsto> ''Dubai Marina'', ''caption'' \<mapsto> ''Sunset views'']])
        (Some ''Photo of [TITLE]: [CAPTION]'')
       = [''Photo of Dubai Marina: Sunset views'' @ template_suffix]
   \<and> sublist ''[CAPTION]'' ''Photo of [TITLE]: [CAPTION]''
   \<and> sublist (take 100 ''Sunset views'')
        (template_prompt ''Photo of [TITLE]: [CAPTION]'' ''Dubai Marina'' ''Sunset views'')
   \<and> sublist ''[TITLE]'' ''Photo of [TITLE]: [CAPTION]''
   \<and> CHR ''['' \<notin> set ''Dubai Marina'' \<and> CHR '']'' \<notin> set ''Dubai Marina''
   \<and> \<not> sublist ''Dubai Marina'' ''CAPTION''
   \<and> sublist ''Dubai Marina''
        (template_prompt ''Photo of [TITLE]: [CAPTION]'' ''Dubai Marina'' ''Sunset views'')
   \<and> suffix template_suffix (''Photo of Dubai Marina: Sunset views'' @ template_suffix)
   \<and> \<not> truthy None
   \<and> generate_image_prompts (\<lambda>i request. Some '' A photo '')
        (Some [[''title'' \<mapsto> ''Dubai Marina'', ''caption'' \<mapsto> ''Sunset views'']]) None
       = [''A photo'' @ smart_suffix]
   \<and> (suffix smart_suffix (''A photo'' @ smart_suffix)
        \<or> suffix fallback_suffix (''A photo'' @ smart_suffix))"
proof -
  let ?t = "''Photo of [TITLE]: [CAPTION]''"
  let ?ps = "[[''title'' \<mapsto> ''Dubai Marina'', ''caption'' \<mapsto> ''Sunset views'']]"
  have h1: "truthy (Some ?t)" by (simp add: truthy_def)
  have h2: "sublist ''[CAPTION]'' ?t" by code_simp
  have h3: "sublist ''[TITLE]'' ?t" by code_simp
  have h4: "CHR ''['' \<notin> set ''Dubai Marina''" "CHR '']'' \<notin> set ''Dubai Marina''" by simp_all
  have h5: "\<not> sublist ''Dubai Marina'' ''CAPTION''" by code_simp
  have h6: "\<not> truthy None" by (simp add: truthy_def)
  have e1: "generate_image_prompts (\<lambda>i request. None) (Some ?ps) (Some ?t)
              = [''Photo of Dubai Marina: Sunset views'' @ template_suffix]"
    by (simp add: generate_image_prompts_def get_or_empty_def truthy_def template_prompt_def
                  py_replace_def Let_def)
  have e2: "generate_image_prompts (\<lambda>i request. Some '' A photo '') (Some ?ps) None
              = [''A photo'' @ smart_suffix]"
    by (simp add: generate_image_prompts_def get_or_empty_def truthy_def py_strip_def
                  is_space_def Let_def)
  note th1 = image_prompts_by_path
               [of "Some ?t" "\<lambda>i request. None" ?ps ?t "''Sunset views''" "''Dubai Marina''"
                   "Some ?ps"]
  note th2 = image_prompts_by_path
               [of None "\<lambda>i request. Some '' A photo ''" ?ps ?t "''Sunset views''"
                   "''Dubai Marina''" "Some ?ps"]
  from th1 h2 have c1: "sublist (take 100 ''Sunset views'')
                          (template_prompt ?t ''Dubai Marina'' ''Sunset views'')"
    by blast
  from th1 h3 h4 h5 have c2: "sublist ''Dubai Marina''
                                (template_prompt ?t ''Dubai Marina'' ''Sunset views'')"
    by blast
  from th1 have "\<forall>q \<in> set (generate_image_prompts (\<lambda>i request. None) (Some ?ps) (Some ?t)).
                   if truthy (Some ?t) then suffix template_suffix q
                   else suffix smart_suffix q \<or> suffix fallback_suffix q"
    by blast
  with h1 have c3: "suffix template_suffix (''Photo of Dubai Marina: Sunset views''
                                             @ template_suffix)"
    unfolding e1 by simp
  from th2 have "\<forall>q \<in> set (generate_image_prompts (\<lambda>i request. Some '' A photo '')
                              (Some ?ps) None).
                   if truthy None then suffix template_suffix q
                   else suffix smart_suffix q \<or> suffix fallback_suffix q"
    by blast
  with h6 have c4: "suffix smart_suffix (''A photo'' @ smart_suffix)
                    \<or> suffix fallback_suffix (''A photo'' @ smart_suffix)"
    unfolding e2 by simp
  from h1 e1 h2 c1 h3 h4 h5 c2 c3 h6 e2 c4 show ?thesis by blast
qed

end
